theory Spec2Isabelle
  imports Main
begin

section \<open>Errors and panics\<close>

text \<open>
  A Go \<open>error\<close> value is modelled by its message (\<open>err.Error()\<close>); a run-time panic
  (failed type assertion, index out of range) is kept apart from a returned error.
\<close>

datatype failure = Errorf string | Panic string

section \<open>Identifier codec\<close>

record instanceGroupManagerId =
  Project :: string
  Zone :: string
  Name :: string

text \<open>The character class \<open>[a-z0-9-]\<close> and the pattern \<open>[a-z0-9-]+\<close>.\<close>

definition nameChar :: "char \<Rightarrow> bool" where
  "nameChar c = (c \<in> set ''abcdefghijklmnopqrstuvwxyz0123456789-'')"

definition namePlus :: "string \<Rightarrow> bool" where
  "namePlus s = (s \<noteq> [] \<and> list_all nameChar s)"

text \<open>
  \<open>instanceGroupManagerIdNameRegex = ^[a-z0-9-]+$\<close>. Go's \<open>^\<close> and \<open>$\<close> without the
  \<open>m\<close> flag anchor at the two ends of the text.
\<close>

definition instanceGroupManagerIdNameRegex :: "string \<Rightarrow> bool" where
  "instanceGroupManagerIdNameRegex s = namePlus s"

text \<open>
  \<open>instanceGroupManagerIdRegex = "^" + ProjectRegex + "/[a-z0-9-]+/[a-z0-9-]+$"\<close>.
  The constant \<open>ProjectRegex\<close> is declared in another file of the package; it is a
  parameter here, \<open>projectRegex\<close>, given as the set of strings the pattern matches as a
  whole. The text matches when it can be cut at two slashes, at positions \<open>i < j\<close>, into
  a project, a zone and a name.
\<close>

definition instanceGroupManagerIdRegex :: "(string \<Rightarrow> bool) \<Rightarrow> string \<Rightarrow> bool" where
  "instanceGroupManagerIdRegex projectRegex s =
     list_ex (\<lambda>i. list_ex (\<lambda>j.
         projectRegex (take i s) \<and> s ! i = CHR ''/'' \<and>
         namePlus (take (j - Suc i) (drop (Suc i) s)) \<and> s ! j = CHR ''/'' \<and>
         namePlus (drop (Suc j) s))
       [Suc i ..< length s]) [0 ..< length s]"

text \<open>\<open>strings.Split(s, sep)\<close> for a one-character separator.\<close>

fun Split :: "string \<Rightarrow> char \<Rightarrow> string list" where
  "Split [] sep = [[]]"
| "Split (c # cs) sep =
     (if c = sep then [] # Split cs sep
      else (case Split cs sep of
              [] \<Rightarrow> [[c]]
            | w # ws \<Rightarrow> (c # w) # ws))"

definition terraformId :: "instanceGroupManagerId \<Rightarrow> string" where
  "terraformId i = Project i @ ''/'' @ Zone i @ ''/'' @ Name i"

definition invalidSpecifier :: string where
  "invalidSpecifier = ''Invalid instance group manager specifier. Expecting either {projectId}/{zone}/{name} or {name}, where {projectId} and {zone} will be derived from the provider.''"

definition parseInstanceGroupManagerId ::
    "(string \<Rightarrow> bool) \<Rightarrow> string \<Rightarrow> failure + instanceGroupManagerId" where
  "parseInstanceGroupManagerId projectRegex s =
     (if instanceGroupManagerIdRegex projectRegex s then
        (case Split s (CHR ''/'') of
           p # z # n # _ \<Rightarrow> Inr \<lparr>Project = p, Zone = z, Name = n\<rparr>
         | _ \<Rightarrow> Inl (Panic ''index out of range''))
      else if instanceGroupManagerIdNameRegex s then
        Inr \<lparr>Project = [], Zone = [], Name = s\<rparr>
      else Inl (Errorf invalidSpecifier))"

section \<open>Dynamic configuration values\<close>

text \<open>
  The adapter reads its configuration as \<open>interface{}\<close> values and narrows them by type
  assertions, which panic on a value of another dynamic type. \<open>VList\<close> stands for
  \<open>[]interface{}\<close> and \<open>[]map[string]interface{}\<close>, \<open>VSet\<close> for a \<open>*schema.Set\<close>
  (holding what its \<open>List()\<close> returns), \<open>VStrings\<close> for \<open>[]string\<close>, \<open>VMap\<close> for
  \<open>map[string]interface{}\<close>. The adapter copies and compares its integers and computes
  nothing with them, so Go's \<open>int\<close> and \<open>int64\<close> are both \<open>int\<close> here, under the two
  constructors that keep the dynamic types apart.
\<close>

datatype val =
    VNil
  | VInt int
  | VInt64 int
  | VString string
  | VBool bool
  | VStrings "string list"
  | VList "val list"
  | VSet "val list"
  | VMap "string \<Rightarrow> val option"

definition conversionPanic :: failure where
  "conversionPanic = Panic ''interface conversion''"

fun assertInt :: "val \<Rightarrow> failure + int" where
  "assertInt (VInt n) = Inr n"
| "assertInt _ = Inl conversionPanic"

fun assertString :: "val \<Rightarrow> failure + string" where
  "assertString (VString s) = Inr s"
| "assertString _ = Inl conversionPanic"

fun assertBool :: "val \<Rightarrow> failure + bool" where
  "assertBool (VBool b) = Inr b"
| "assertBool _ = Inl conversionPanic"

fun assertList :: "val \<Rightarrow> failure + val list" where
  "assertList (VList xs) = Inr xs"
| "assertList _ = Inl conversionPanic"

fun assertSet :: "val \<Rightarrow> failure + val list" where
  "assertSet (VSet xs) = Inr xs"
| "assertSet _ = Inl conversionPanic"

fun assertMap :: "val \<Rightarrow> failure + (string \<Rightarrow> val option)" where
  "assertMap (VMap m) = Inr m"
| "assertMap _ = Inl conversionPanic"

text \<open>Indexing a Go map: a missing key yields the nil interface.\<close>

definition index :: "(string \<Rightarrow> val option) \<Rightarrow> string \<Rightarrow> val" where
  "index m k = (case m k of None \<Rightarrow> VNil | Some v \<Rightarrow> v)"

section \<open>API structures\<close>

text \<open>
  The fields of the \<open>computeBeta\<close> structures that the adapter reads or writes. A pointer
  or slice field that may be nil is an \<open>option\<close>; \<open>None\<close> is the zero value, which is what
  a field never assigned holds.
\<close>

record FixedOrPercent =
  Fixed :: int
  Percent :: int
  ForceSendFields :: "string list"
  NullFields :: "string list"

record InstanceGroupManagerVersion =
  VersionName :: string
  InstanceTemplate :: string
  TargetSize :: "FixedOrPercent option"

record InstanceGroupManagerAutoHealingPolicy =
  HealthCheck :: string
  InitialDelaySec :: int

record InstanceGroupManagerUpdatePolicy =
  MinimalAction :: string
  Type :: string
  MaxSurge :: "FixedOrPercent option"
  MaxUnavailable :: "FixedOrPercent option"
  MinReadySec :: int

record NamedPort =
  PortName :: string
  Port :: int

section \<open>Field transcoders\<close>

definition emptyFixedOrPercent :: FixedOrPercent where
  "emptyFixedOrPercent = \<lparr>Fixed = 0, Percent = 0, ForceSendFields = [], NullFields = []\<rparr>"

text \<open>
  \<open>expandFixedOrPercent\<close>: the loop over \<open>configured\<close>, updating the structure the
  function allocated.
\<close>

fun expandFixedOrPercentLoop :: "val list \<Rightarrow> FixedOrPercent \<Rightarrow> failure + FixedOrPercent" where
  "expandFixedOrPercentLoop [] fixedOrPercent = Inr fixedOrPercent"
| "expandFixedOrPercentLoop (raw # rest) fixedOrPercent =
     (case assertMap raw of
        Inl e \<Rightarrow> Inl e
      | Inr data \<Rightarrow>
         (case assertInt (index data ''percent'') of
            Inl e \<Rightarrow> Inl e
          | Inr percent \<Rightarrow>
             if percent > 0 then
               expandFixedOrPercentLoop rest (fixedOrPercent\<lparr>Percent := percent\<rparr>)
             else
               (case assertInt (index data ''fixed'') of
                  Inl e \<Rightarrow> Inl e
                | Inr fixed \<Rightarrow>
                   expandFixedOrPercentLoop rest
                     (fixedOrPercent\<lparr>Fixed := fixed, ForceSendFields := [''Fixed'']\<rparr>))))"

definition expandFixedOrPercent :: "val list \<Rightarrow> failure + FixedOrPercent" where
  "expandFixedOrPercent configured = expandFixedOrPercentLoop configured emptyFixedOrPercent"

text \<open>\<open>flattenFixedOrPercent\<close> reads through its pointer argument: nil panics.\<close>

definition nilDereference :: failure where
  "nilDereference = Panic ''invalid memory address or nil pointer dereference''"

definition flattenFixedOrPercent :: "FixedOrPercent option \<Rightarrow> failure + val" where
  "flattenFixedOrPercent p =
     (case p of
        None \<Rightarrow> Inl nilDereference
      | Some fixedOrPercent \<Rightarrow>
         if Percent fixedOrPercent > 0 then
           Inr (VList [VMap [''percent'' \<mapsto> VInt64 (Percent fixedOrPercent)]])
         else if Fixed fixedOrPercent > 0 then
           Inr (VList [VMap [''fixed'' \<mapsto> VInt64 (Fixed fixedOrPercent)]])
         else Inr (VList []))"

text \<open>
  \<open>flattenVersions\<close>; \<open>ConvertSelfLinkToV1\<close> is a helper of another file of the package
  and is a parameter.
\<close>

fun flattenVersionsLoop ::
    "(string \<Rightarrow> string) \<Rightarrow> InstanceGroupManagerVersion list \<Rightarrow> failure + val list" where
  "flattenVersionsLoop ConvertSelfLinkToV1 [] = Inr []"
| "flattenVersionsLoop ConvertSelfLinkToV1 (version # rest) =
     (case flattenFixedOrPercent (TargetSize version) of
        Inl e \<Rightarrow> Inl e
      | Inr targetSize \<Rightarrow>
         (case flattenVersionsLoop ConvertSelfLinkToV1 rest of
            Inl e \<Rightarrow> Inl e
          | Inr result \<Rightarrow>
             Inr (VMap [''name'' \<mapsto> VString (VersionName version),
                        ''instance_template'' \<mapsto>
                           VString (ConvertSelfLinkToV1 (InstanceTemplate version)),
                        ''target_size'' \<mapsto> targetSize] # result)))"

definition flattenVersions ::
    "(string \<Rightarrow> string) \<Rightarrow> InstanceGroupManagerVersion list \<Rightarrow> failure + val" where
  "flattenVersions ConvertSelfLinkToV1 versions =
     (case flattenVersionsLoop ConvertSelfLinkToV1 versions of
        Inl e \<Rightarrow> Inl e
      | Inr result \<Rightarrow> Inr (VList result))"

definition flattenNamedPortsBeta :: "NamedPort list \<Rightarrow> val" where
  "flattenNamedPortsBeta namedPorts =
     VList (map (\<lambda>namedPort.
        VMap [''name'' \<mapsto> VString (PortName namedPort),
              ''port'' \<mapsto> VInt64 (Port namedPort)]) namedPorts)"

definition flattenAutoHealingPolicies :: "InstanceGroupManagerAutoHealingPolicy list \<Rightarrow> val" where
  "flattenAutoHealingPolicies autoHealingPolicies =
     VList (map (\<lambda>autoHealingPolicy.
        VMap [''health_check'' \<mapsto> VString (HealthCheck autoHealingPolicy),
              ''initial_delay_sec'' \<mapsto> VInt64 (InitialDelaySec autoHealingPolicy)])
       autoHealingPolicies)"

definition flattenUpdatePolicy :: "InstanceGroupManagerUpdatePolicy option \<Rightarrow> val" where
  "flattenUpdatePolicy p =
     (case p of
        None \<Rightarrow> VList []
      | Some updatePolicy \<Rightarrow>
         VList [VMap [
           ''max_surge_fixed'' \<mapsto>
              (case MaxSurge updatePolicy of None \<Rightarrow> VInt 0 | Some f \<Rightarrow> VInt64 (Fixed f)),
           ''max_surge_percent'' \<mapsto>
              (case MaxSurge updatePolicy of None \<Rightarrow> VInt 0 | Some f \<Rightarrow> VInt64 (Percent f)),
           ''max_unavailable_fixed'' \<mapsto>
              (case MaxUnavailable updatePolicy of None \<Rightarrow> VInt 0 | Some f \<Rightarrow> VInt64 (Fixed f)),
           ''max_unavailable_percent'' \<mapsto>
              (case MaxUnavailable updatePolicy of None \<Rightarrow> VInt 0 | Some f \<Rightarrow> VInt64 (Percent f)),
           ''min_ready_sec'' \<mapsto> VInt64 (MinReadySec updatePolicy),
           ''minimal_action'' \<mapsto> VString (MinimalAction updatePolicy),
           ''type'' \<mapsto> VString (Type updatePolicy)]])"

fun expandAutoHealingPolicies ::
    "val list \<Rightarrow> failure + InstanceGroupManagerAutoHealingPolicy list" where
  "expandAutoHealingPolicies [] = Inr []"
| "expandAutoHealingPolicies (raw # rest) =
     (case assertMap raw of
        Inl e \<Rightarrow> Inl e
      | Inr data \<Rightarrow>
         (case assertString (index data ''health_check'') of
            Inl e \<Rightarrow> Inl e
          | Inr healthCheck \<Rightarrow>
             (case assertInt (index data ''initial_delay_sec'') of
                Inl e \<Rightarrow> Inl e
              | Inr initialDelaySec \<Rightarrow>
                 (case expandAutoHealingPolicies rest of
                    Inl e \<Rightarrow> Inl e
                  | Inr autoHealingPolicies \<Rightarrow>
                     Inr (\<lparr>HealthCheck = healthCheck, InitialDelaySec = initialDelaySec\<rparr>
                          # autoHealingPolicies)))))"

fun expandVersions :: "val list \<Rightarrow> failure + InstanceGroupManagerVersion list" where
  "expandVersions [] = Inr []"
| "expandVersions (raw # rest) =
     (case assertMap raw of
        Inl e \<Rightarrow> Inl e
      | Inr data \<Rightarrow>
         (case assertString (index data ''name'') of
            Inl e \<Rightarrow> Inl e
          | Inr name \<Rightarrow>
             (case assertString (index data ''instance_template'') of
                Inl e \<Rightarrow> Inl e
              | Inr instanceTemplate \<Rightarrow>
                 (case assertList (index data ''target_size'') of
                    Inl e \<Rightarrow> Inl e
                  | Inr configured \<Rightarrow>
                     (case expandFixedOrPercent configured of
                        Inl e \<Rightarrow> Inl e
                      | Inr targetSize \<Rightarrow>
                         (case expandVersions rest of
                            Inl e \<Rightarrow> Inl e
                          | Inr versions \<Rightarrow>
                             Inr (\<lparr>VersionName = name, InstanceTemplate = instanceTemplate,
                                   TargetSize = Some targetSize\<rparr> # versions)))))))"

definition emptyUpdatePolicy :: InstanceGroupManagerUpdatePolicy where
  "emptyUpdatePolicy =
     \<lparr>MinimalAction = [], Type = [], MaxSurge = None, MaxUnavailable = None, MinReadySec = 0\<rparr>"

text \<open>One of the two \<open>if v := data[...]; v.(int) > 0\<close> blocks of \<open>expandUpdatePolicy\<close>.\<close>

definition expandPercentOrFixed ::
    "(string \<Rightarrow> val option) \<Rightarrow> string \<Rightarrow> string \<Rightarrow> failure + FixedOrPercent" where
  "expandPercentOrFixed data percentKey fixedKey =
     (case assertInt (index data percentKey) of
        Inl e \<Rightarrow> Inl e
      | Inr v \<Rightarrow>
         if v > 0 then
           Inr \<lparr>Fixed = 0, Percent = v, ForceSendFields = [], NullFields = [''Fixed'']\<rparr>
         else
           (case assertInt (index data fixedKey) of
              Inl e \<Rightarrow> Inl e
            | Inr fixed \<Rightarrow>
               Inr \<lparr>Fixed = fixed, Percent = 0, ForceSendFields = [''Fixed''],
                    NullFields = [''Percent'']\<rparr>))"

fun expandUpdatePolicyLoop ::
    "val list \<Rightarrow> InstanceGroupManagerUpdatePolicy \<Rightarrow> failure + InstanceGroupManagerUpdatePolicy" where
  "expandUpdatePolicyLoop [] updatePolicy = Inr updatePolicy"
| "expandUpdatePolicyLoop (raw # rest) updatePolicy =
     (case assertMap raw of
        Inl e \<Rightarrow> Inl e
      | Inr data \<Rightarrow>
         (case assertString (index data ''minimal_action'') of
            Inl e \<Rightarrow> Inl e
          | Inr minimalAction \<Rightarrow>
             (case assertString (index data ''type'') of
                Inl e \<Rightarrow> Inl e
              | Inr type \<Rightarrow>
                 (case expandPercentOrFixed data ''max_surge_percent'' ''max_surge_fixed'' of
                    Inl e \<Rightarrow> Inl e
                  | Inr maxSurge \<Rightarrow>
                     (case expandPercentOrFixed data ''max_unavailable_percent''
                             ''max_unavailable_fixed'' of
                        Inl e \<Rightarrow> Inl e
                      | Inr maxUnavailable \<Rightarrow>
                         (case (case data ''min_ready_sec'' of
                                  None \<Rightarrow> Inr (MinReadySec updatePolicy)
                                | Some v \<Rightarrow> assertInt v) of
                            Inl e \<Rightarrow> Inl e
                          | Inr minReadySec \<Rightarrow>
                             expandUpdatePolicyLoop rest
                               \<lparr>MinimalAction = minimalAction, Type = type,
                                MaxSurge = Some maxSurge, MaxUnavailable = Some maxUnavailable,
                                MinReadySec = minReadySec\<rparr>))))))"

definition expandUpdatePolicy :: "val list \<Rightarrow> failure + InstanceGroupManagerUpdatePolicy" where
  "expandUpdatePolicy configured = expandUpdatePolicyLoop configured emptyUpdatePolicy"

fun getNamedPortsBeta :: "val list \<Rightarrow> failure + NamedPort list" where
  "getNamedPortsBeta [] = Inr []"
| "getNamedPortsBeta (v # rest) =
     (case assertMap v of
        Inl e \<Rightarrow> Inl e
      | Inr np \<Rightarrow>
         (case assertString (index np ''name'') of
            Inl e \<Rightarrow> Inl e
          | Inr name \<Rightarrow>
             (case assertInt (index np ''port'') of
                Inl e \<Rightarrow> Inl e
              | Inr port \<Rightarrow>
                 (case getNamedPortsBeta rest of
                    Inl e \<Rightarrow> Inl e
                  | Inr namedPorts \<Rightarrow> Inr (\<lparr>PortName = name, Port = port\<rparr> # namedPorts)))))"

section \<open>Resource data, helpers and the remote API\<close>

record InstanceGroupManager =
  BaseInstanceName :: string
  ManagerName :: string
  ManagerZone :: string
  Description :: string
  ManagerTargetSize :: int
  TargetPools :: "string list option"
  NamedPorts :: "NamedPort list option"
  Fingerprint :: string
  InstanceGroup :: string
  SelfLink :: string
  AutoHealingPolicies :: "InstanceGroupManagerAutoHealingPolicy list option"
  Versions :: "InstanceGroupManagerVersion list option"
  UpdatePolicy :: "InstanceGroupManagerUpdatePolicy option"
  ManagerForceSendFields :: "string list"

text \<open>The zero value \<open>computeBeta.InstanceGroupManager{}\<close>.\<close>

definition emptyManager :: InstanceGroupManager where
  "emptyManager =
     \<lparr>BaseInstanceName = [], ManagerName = [], ManagerZone = [], Description = [],
      ManagerTargetSize = 0, TargetPools = None, NamedPorts = None, Fingerprint = [],
      InstanceGroup = [], SelfLink = [], AutoHealingPolicies = None, Versions = None,
      UpdatePolicy = None, ManagerForceSendFields = []\<rparr>"

text \<open>Ranging over a nil slice runs no iteration.\<close>

definition slice :: "'a list option \<Rightarrow> 'a list" where
  "slice xs = (case xs of None \<Rightarrow> [] | Some ys \<Rightarrow> ys)"

text \<open>
  \<open>*schema.ResourceData\<close>: the stored identifier, the attributes \<open>d.Get\<close> reads and
  \<open>d.Set\<close> writes, and the keys for which \<open>d.HasChange\<close> holds.
\<close>

record ResourceData =
  d_Id :: string
  attrs :: "string \<Rightarrow> val option"
  HasChange :: "string \<Rightarrow> bool"

definition d_Get :: "ResourceData \<Rightarrow> string \<Rightarrow> val" where
  "d_Get d key = index (attrs d) key"

text \<open>
  \<open>d.Set\<close> stores a value at the type the schema of the resource declares for it: every
  integer field is a \<open>TypeInt\<close>, so an \<open>int64\<close> the adapter hands over is read back as an
  \<open>int\<close>, a \<open>[]string\<close> is read back as a list of strings, and \<open>named_port\<close> and
  \<open>target_pools\<close>, the two \<open>TypeSet\<close> fields, are read back as sets. The order in which
  a set lists its elements and the zero values the framework reads for the keys that a
  block leaves out are not modelled.
\<close>

primrec schemaValue :: "val \<Rightarrow> val" where
  "schemaValue VNil = VNil"
| "schemaValue (VInt n) = VInt n"
| "schemaValue (VInt64 n) = VInt n"
| "schemaValue (VString s) = VString s"
| "schemaValue (VBool b) = VBool b"
| "schemaValue (VStrings xs) = VList (map VString xs)"
| "schemaValue (VList xs) = VList (map schemaValue xs)"
| "schemaValue (VSet xs) = VSet (map schemaValue xs)"
| "schemaValue (VMap m) = VMap (map_option schemaValue \<circ> m)"

definition TypeSet :: "string \<Rightarrow> bool" where
  "TypeSet key = (key = ''named_port'' \<or> key = ''target_pools'')"

fun asSet :: "val \<Rightarrow> val" where
  "asSet (VList xs) = VSet xs"
| "asSet v = v"

definition storedValue :: "string \<Rightarrow> val \<Rightarrow> val" where
  "storedValue key v = (if TypeSet key then asSet (schemaValue v) else schemaValue v)"

definition d_Set :: "ResourceData \<Rightarrow> string \<Rightarrow> val \<Rightarrow> ResourceData" where
  "d_Set d key v = d\<lparr>attrs := (attrs d)(key \<mapsto> storedValue key v)\<rparr>"

definition d_SetId :: "ResourceData \<Rightarrow> string \<Rightarrow> ResourceData" where
  "d_SetId d v = d\<lparr>d_Id := v\<rparr>"

text \<open>
  Functions the adapter calls that other files of the package or the plugin framework
  define; they are parameters. The resolution helpers read \<open>d\<close> and return Go's pair of a
  string and an error. \<open>handleNotFoundError\<close> takes the error, \<open>d\<close> and the name its label is
  formatted from, and returns \<open>d\<close> as it leaves it and its error. \<open>Set_error\<close> is the error
  \<open>d.Set\<close> returns for a key, consulted where the source checks it; a \<open>d.Set\<close> whose result
  the source drops is taken to store its value.
\<close>

record helpers =
  ProjectRegex :: "string \<Rightarrow> bool"
  getProject :: "ResourceData \<Rightarrow> string \<times> string option"
  getZone :: "ResourceData \<Rightarrow> string \<times> string option"
  getRegion :: "ResourceData \<Rightarrow> string \<times> string option"
  convertStringSet :: "val list \<Rightarrow> failure + string list"
  ConvertSelfLinkToV1 :: "string \<Rightarrow> string"
  GetResourceNameFromSelfLink :: "string \<Rightarrow> string"
  handleNotFoundError :: "string \<Rightarrow> ResourceData \<Rightarrow> string \<Rightarrow> ResourceData \<times> string option"
  Set_error :: "string \<Rightarrow> string option"

datatype Operation = Operation string

text \<open>
  What the remote side answers. A request that the adapter can repeat within one
  invocation is answered by the number of the attempt; an operation is polled by
  \<open>computeSharedOperationWait\<close>, answered by the operation and the number of the poll.
  \<open>Inl\<close> and \<open>Some\<close> carry the text of an error.
\<close>

record world =
  Get_Do :: "string + InstanceGroupManager"
  getZonalBetaResourceFromRegion :: "string + InstanceGroupManager option"
  Patch_Do :: "string + Operation"
  SetNamedPorts_Do :: "string + Operation"
  Resize_Do :: "string + Operation"
  Delete_Do :: "nat \<Rightarrow> string + Operation"
  InstanceGroups_Get_Do :: "nat \<Rightarrow> string + int"
  computeSharedOperationWait :: "Operation \<Rightarrow> nat \<Rightarrow> string option"
  WaitForState :: "string option"

text \<open>The outbound calls of one invocation, in order; \<open>Sleep\<close> holds milliseconds.\<close>

datatype call =
    CallGet string string string
  | CallZonalSearch string string
  | CallPatch string string string InstanceGroupManager
  | CallSetNamedPorts string string string "NamedPort list"
  | CallResize string string string int
  | CallDelete string string string
  | CallInstanceGroupsGet string string string
  | CallOperationWait Operation string string
  | CallWaitForState
  | Sleep nat

section \<open>Read\<close>

definition getManager ::
    "helpers \<Rightarrow> world \<Rightarrow> ResourceData \<Rightarrow>
     call list \<times> ResourceData \<times> (failure + InstanceGroupManager option)" where
  "getManager h w d =
     (case parseInstanceGroupManagerId (ProjectRegex h) (d_Id d) of
        Inl e \<Rightarrow> ([], d, Inl e)
      | Inr zonalID \<Rightarrow>
         (case (if Project zonalID = [] then
                  (case getProject h d of
                     (project, Some e) \<Rightarrow> Inl (Errorf e)
                   | (project, None) \<Rightarrow> Inr (zonalID\<lparr>Project := project\<rparr>))
                else Inr zonalID) of
            Inl e \<Rightarrow> ([], d, Inl e)
          | Inr zonalID1 \<Rightarrow>
             (let zonalID2 = (if Zone zonalID1 = [] then zonalID1\<lparr>Zone := fst (getZone h d)\<rparr>
                              else zonalID1)
              in if Zone zonalID2 = [] then
                   (case getRegion h d of
                      (region, Some e) \<Rightarrow> ([], d, Inl (Errorf e))
                    | (region, None) \<Rightarrow>
                       (case getZonalBetaResourceFromRegion w of
                          Inl e \<Rightarrow> ([CallZonalSearch region (Project zonalID2)], d, Inl (Errorf e))
                        | Inr None \<Rightarrow>
                            ([CallZonalSearch region (Project zonalID2)], d_SetId d [], Inr None)
                        | Inr (Some manager) \<Rightarrow>
                            ([CallZonalSearch region (Project zonalID2)], d, Inr (Some manager))))
                 else
                   (case Get_Do w of
                      Inl e \<Rightarrow>
                        (case handleNotFoundError h e d (Name zonalID2) of
                           (d1, Some e1) \<Rightarrow>
                             ([CallGet (Project zonalID2) (Zone zonalID2) (Name zonalID2)], d1,
                              Inl (Errorf e1))
                         | (d1, None) \<Rightarrow>
                             ([CallGet (Project zonalID2) (Zone zonalID2) (Name zonalID2)], d1,
                              Inr None))
                    | Inr manager \<Rightarrow>
                        ([CallGet (Project zonalID2) (Zone zonalID2) (Name zonalID2)], d,
                         Inr (Some manager))))))"

text \<open>A \<open>d.Set\<close> whose error the source checks and wraps.\<close>

definition checkedSet ::
    "helpers \<Rightarrow> ResourceData \<Rightarrow> string \<Rightarrow> val \<Rightarrow> failure + ResourceData" where
  "checkedSet h d key v =
     (case Set_error h key of
        Some e \<Rightarrow> Inl (Errorf (''Error setting '' @ key @ '' in state: '' @ e))
      | None \<Rightarrow> Inr (d_Set d key v))"

text \<open>The tail of \<open>resourceComputeInstanceGroupManagerRead\<close>: the wait for instances.\<close>

definition readWait ::
    "world \<Rightarrow> call list \<Rightarrow> ResourceData \<Rightarrow> call list \<times> ResourceData \<times> failure option" where
  "readWait w t d =
     (case assertBool (d_Get d ''wait_for_instances'') of
        Inl e \<Rightarrow> (t, d, Some e)
      | Inr True \<Rightarrow>
          (case WaitForState w of
             Some e \<Rightarrow> (t @ [CallWaitForState], d, Some (Errorf e))
           | None \<Rightarrow> (t @ [CallWaitForState], d, None))
      | Inr False \<Rightarrow> (t, d, None))"

text \<open>The part of the read that copies a manager that was found into the state.\<close>

definition readManager ::
    "helpers \<Rightarrow> world \<Rightarrow> call list \<Rightarrow> ResourceData \<Rightarrow> string \<Rightarrow> InstanceGroupManager \<Rightarrow>
     call list \<times> ResourceData \<times> failure option" where
  "readManager h w t d project manager =
     (let d1 = d_Set d ''base_instance_name'' (VString (BaseInstanceName manager));
          d2 = d_Set d1 ''name'' (VString (ManagerName manager));
          d3 = d_Set d2 ''zone'' (VString (GetResourceNameFromSelfLink h (ManagerZone manager)));
          d4 = d_Set d3 ''description'' (VString (Description manager));
          d5 = d_Set d4 ''project'' (VString project);
          d6 = d_Set d5 ''target_size'' (VInt64 (ManagerTargetSize manager))
      in case checkedSet h d6 ''target_pools'' (VStrings (slice (TargetPools manager))) of
           Inl e \<Rightarrow> (t, d6, Some e)
         | Inr d7 \<Rightarrow>
         (case checkedSet h d7 ''named_port''
                 (flattenNamedPortsBeta (slice (NamedPorts manager))) of
            Inl e \<Rightarrow> (t, d7, Some e)
          | Inr d8 \<Rightarrow>
          (let d9 = d_Set d8 ''fingerprint'' (VString (Fingerprint manager));
               d10 = d_Set d9 ''instance_group''
                       (VString (ConvertSelfLinkToV1 h (InstanceGroup manager)));
               d11 = d_Set d10 ''self_link'' (VString (ConvertSelfLinkToV1 h (SelfLink manager)))
           in case checkedSet h d11 ''auto_healing_policies''
                     (flattenAutoHealingPolicies (slice (AutoHealingPolicies manager))) of
                Inl e \<Rightarrow> (t, d11, Some e)
              | Inr d12 \<Rightarrow>
              (case flattenVersions (ConvertSelfLinkToV1 h) (slice (Versions manager)) of
                 Inl e \<Rightarrow> (t, d12, Some e)
               | Inr versions \<Rightarrow>
               (case Set_error h ''version'' of
                  Some e \<Rightarrow> (t, d12, Some (Errorf e))
                | None \<Rightarrow>
                (let d13 = d_Set d12 ''version'' versions
                 in case checkedSet h d13 ''update_policy''
                           (flattenUpdatePolicy (UpdatePolicy manager)) of
                      Inl e \<Rightarrow> (t, d13, Some e)
                    | Inr d14 \<Rightarrow> readWait w t d14))))))"

definition resourceComputeInstanceGroupManagerRead ::
    "helpers \<Rightarrow> world \<Rightarrow> ResourceData \<Rightarrow> call list \<times> ResourceData \<times> failure option" where
  "resourceComputeInstanceGroupManagerRead h w d =
     (case getProject h d of
        (project, Some e) \<Rightarrow> ([], d, Some (Errorf e))
      | (project, None) \<Rightarrow>
         (case getManager h w d of
            (t, d1, Inl e) \<Rightarrow> (t, d1, Some e)
          | (t, d1, Inr None) \<Rightarrow> (t, d_SetId d1 [], None)
          | (t, d1, Inr (Some manager)) \<Rightarrow> readManager h w t d1 project manager))"

section \<open>Update\<close>

text \<open>
  The four \<open>if d.HasChange(...)\<close> blocks that fill the patch request; each takes and
  returns the request and the \<open>change\<close> flag.
\<close>

definition patchTargetPools ::
    "helpers \<Rightarrow> ResourceData \<Rightarrow> InstanceGroupManager \<times> bool \<Rightarrow>
     failure + InstanceGroupManager \<times> bool" where
  "patchTargetPools h d mc =
     (if HasChange d ''target_pools'' then
        (case assertSet (d_Get d ''target_pools'') of
           Inl e \<Rightarrow> Inl e
         | Inr pools \<Rightarrow>
            (case convertStringSet h pools of
               Inl e \<Rightarrow> Inl e
             | Inr targetPools \<Rightarrow>
                Inr ((fst mc)\<lparr>TargetPools := Some targetPools\<rparr>, True)))
      else Inr mc)"

definition patchAutoHealingPolicies ::
    "ResourceData \<Rightarrow> InstanceGroupManager \<times> bool \<Rightarrow> failure + InstanceGroupManager \<times> bool" where
  "patchAutoHealingPolicies d mc =
     (if HasChange d ''auto_healing_policies'' then
        (case assertList (d_Get d ''auto_healing_policies'') of
           Inl e \<Rightarrow> Inl e
         | Inr configured \<Rightarrow>
            (case expandAutoHealingPolicies configured of
               Inl e \<Rightarrow> Inl e
             | Inr policies \<Rightarrow>
                Inr ((fst mc)\<lparr>AutoHealingPolicies := Some policies,
                       ManagerForceSendFields :=
                         ManagerForceSendFields (fst mc) @ [''AutoHealingPolicies'']\<rparr>, True)))
      else Inr mc)"

definition patchVersions ::
    "ResourceData \<Rightarrow> InstanceGroupManager \<times> bool \<Rightarrow> failure + InstanceGroupManager \<times> bool" where
  "patchVersions d mc =
     (if HasChange d ''version'' then
        (case assertList (d_Get d ''version'') of
           Inl e \<Rightarrow> Inl e
         | Inr configured \<Rightarrow>
            (case expandVersions configured of
               Inl e \<Rightarrow> Inl e
             | Inr versions \<Rightarrow> Inr ((fst mc)\<lparr>Versions := Some versions\<rparr>, True)))
      else Inr mc)"

definition patchUpdatePolicy ::
    "ResourceData \<Rightarrow> InstanceGroupManager \<times> bool \<Rightarrow> failure + InstanceGroupManager \<times> bool" where
  "patchUpdatePolicy d mc =
     (if HasChange d ''update_policy'' then
        (case assertList (d_Get d ''update_policy'') of
           Inl e \<Rightarrow> Inl e
         | Inr configured \<Rightarrow>
            (case expandUpdatePolicy configured of
               Inl e \<Rightarrow> Inl e
             | Inr updatePolicy \<Rightarrow> Inr ((fst mc)\<lparr>UpdatePolicy := Some updatePolicy\<rparr>, True)))
      else Inr mc)"

text \<open>The request \<open>updatedManager\<close> and the flag \<open>change\<close> as they stand before \<open>if change\<close>.\<close>

definition buildUpdatedManager ::
    "helpers \<Rightarrow> ResourceData \<Rightarrow> failure + InstanceGroupManager \<times> bool" where
  "buildUpdatedManager h d =
     (case assertString (d_Get d ''fingerprint'') of
        Inl e \<Rightarrow> Inl e
      | Inr fingerprint \<Rightarrow>
         (case patchTargetPools h d (emptyManager\<lparr>Fingerprint := fingerprint\<rparr>, False) of
            Inl e \<Rightarrow> Inl e
          | Inr mc1 \<Rightarrow>
             (case patchAutoHealingPolicies d mc1 of
                Inl e \<Rightarrow> Inl e
              | Inr mc2 \<Rightarrow>
                 (case patchVersions d mc2 of
                    Inl e \<Rightarrow> Inl e
                  | Inr mc3 \<Rightarrow> patchUpdatePolicy d mc3))))"

text \<open>The \<open>if change\<close> block: the patch request and the wait for its operation.\<close>

definition patchStep ::
    "world \<Rightarrow> ResourceData \<Rightarrow> string \<Rightarrow> string \<Rightarrow> InstanceGroupManager \<Rightarrow> bool \<Rightarrow>
     call list \<times> failure option" where
  "patchStep w d project zone updatedManager change =
     (if change then
        (case assertString (d_Get d ''name'') of
           Inl e \<Rightarrow> ([], Some e)
         | Inr name \<Rightarrow>
            (case Patch_Do w of
               Inl e \<Rightarrow>
                 ([CallPatch project zone name updatedManager],
                  Some (Errorf (''Error updating managed group instances: '' @ e)))
             | Inr op \<Rightarrow>
                 (case computeSharedOperationWait w op 0 of
                    Some e \<Rightarrow>
                      ([CallPatch project zone name updatedManager,
                        CallOperationWait op project ''Updating managed group instances''],
                       Some (Errorf e))
                  | None \<Rightarrow>
                      ([CallPatch project zone name updatedManager,
                        CallOperationWait op project ''Updating managed group instances''],
                       None))))
      else ([], None))"

text \<open>The \<open>if d.HasChange("named_port")\<close> block.\<close>

definition namedPortStep ::
    "world \<Rightarrow> ResourceData \<Rightarrow> string \<Rightarrow> string \<Rightarrow> call list \<times> failure option" where
  "namedPortStep w d project zone =
     (if HasChange d ''named_port'' then
        (case assertSet (d_Get d ''named_port'') of
           Inl e \<Rightarrow> ([], Some e)
         | Inr nps \<Rightarrow>
            (case getNamedPortsBeta nps of
               Inl e \<Rightarrow> ([], Some e)
             | Inr namedPorts \<Rightarrow>
                (case assertString (d_Get d ''name'') of
                   Inl e \<Rightarrow> ([], Some e)
                 | Inr name \<Rightarrow>
                    (case SetNamedPorts_Do w of
                       Inl e \<Rightarrow>
                         ([CallSetNamedPorts project zone name namedPorts],
                          Some (Errorf (''Error updating InstanceGroupManager: '' @ e)))
                     | Inr op \<Rightarrow>
                         (case computeSharedOperationWait w op 0 of
                            Some e \<Rightarrow>
                              ([CallSetNamedPorts project zone name namedPorts,
                                CallOperationWait op project ''Updating InstanceGroupManager''],
                               Some (Errorf e))
                          | None \<Rightarrow>
                              ([CallSetNamedPorts project zone name namedPorts,
                                CallOperationWait op project ''Updating InstanceGroupManager''],
                               None))))))
      else ([], None))"

text \<open>The \<open>if d.HasChange("target_size")\<close> block.\<close>

definition resizeStep ::
    "world \<Rightarrow> ResourceData \<Rightarrow> string \<Rightarrow> string \<Rightarrow> call list \<times> failure option" where
  "resizeStep w d project zone =
     (if HasChange d ''target_size'' then
        (case assertInt (d_Get d ''target_size'') of
           Inl e \<Rightarrow> ([], Some e)
         | Inr targetSize \<Rightarrow>
            (case assertString (d_Get d ''name'') of
               Inl e \<Rightarrow> ([], Some e)
             | Inr name \<Rightarrow>
                (case Resize_Do w of
                   Inl e \<Rightarrow>
                     ([CallResize project zone name targetSize],
                      Some (Errorf (''Error updating InstanceGroupManager: '' @ e)))
                 | Inr op \<Rightarrow>
                     (case computeSharedOperationWait w op 0 of
                        Some e \<Rightarrow>
                          ([CallResize project zone name targetSize,
                            CallOperationWait op project ''Updating InstanceGroupManager''],
                           Some (Errorf e))
                      | None \<Rightarrow>
                          ([CallResize project zone name targetSize,
                            CallOperationWait op project ''Updating InstanceGroupManager''],
                           None)))))
      else ([], None))"

definition resourceComputeInstanceGroupManagerUpdate ::
    "helpers \<Rightarrow> world \<Rightarrow> ResourceData \<Rightarrow> call list \<times> ResourceData \<times> failure option" where
  "resourceComputeInstanceGroupManagerUpdate h w d =
     (case getProject h d of
        (project, Some e) \<Rightarrow> ([], d, Some (Errorf e))
      | (project, None) \<Rightarrow>
     (case getZone h d of
        (zone, Some e) \<Rightarrow> ([], d, Some (Errorf e))
      | (zone, None) \<Rightarrow>
     (case buildUpdatedManager h d of
        Inl e \<Rightarrow> ([], d, Some e)
      | Inr (updatedManager, change) \<Rightarrow>
     (case patchStep w d project zone updatedManager change of
        (t1, Some e) \<Rightarrow> (t1, d, Some e)
      | (t1, None) \<Rightarrow>
     (case namedPortStep w d project zone of
        (t2, Some e) \<Rightarrow> (t1 @ t2, d, Some e)
      | (t2, None) \<Rightarrow>
     (case resizeStep w d project zone of
        (t3, Some e) \<Rightarrow> (t1 @ t2 @ t3, d, Some e)
      | (t3, None) \<Rightarrow>
     (case resourceComputeInstanceGroupManagerRead h w d of
        (t4, d1, r) \<Rightarrow> (t1 @ t2 @ t3 @ t4, d1, r))))))))"

section \<open>Delete\<close>

definition HasPrefix :: "string \<Rightarrow> string \<Rightarrow> bool" where
  "HasPrefix s p = (take (length p) s = p)"

text \<open>\<open>strings.Contains(s, substr)\<close>.\<close>

fun Contains :: "string \<Rightarrow> string \<Rightarrow> bool" where
  "Contains [] substr = (substr = [])"
| "Contains (c # cs) substr = (HasPrefix (c # cs) substr \<or> Contains cs substr)"

text \<open>
  The retry loop \<open>for err != nil && attempt < 20\<close>: \<open>r\<close> is the answer to the latest delete
  request, \<open>c\<close> the request. It returns the sleeps and requests of the loop and the last
  answer.
\<close>

function retryDelete ::
    "world \<Rightarrow> call \<Rightarrow> nat \<Rightarrow> string + Operation \<Rightarrow> call list \<times> (string + Operation)" where
  "retryDelete w c attempt r =
     (case r of
        Inl e \<Rightarrow>
          if attempt < 20 then
            (case retryDelete w c (Suc attempt) (Delete_Do w (Suc attempt)) of
               (t, r1) \<Rightarrow> (Sleep 2000 # c # t, r1))
          else ([], r)
      | Inr op \<Rightarrow> ([], r))"
  by pat_completeness auto
termination
  by (relation "measure (\<lambda>(w, c, attempt, r). 20 - attempt)") auto

definition notShrinking :: string where
  "notShrinking = ''Error, instance group isn'' @ [CHR 0x27] @ ''t shrinking during delete''"

text \<open>
  The loop \<open>for err != nil && currentSize > 0\<close> that follows the first wait. \<open>err\<close> is the
  variable the condition tests, \<open>n\<close> the number of size reads done so far, \<open>g\<close> and \<open>p\<close> the
  size request and the wait as they are recorded. The body declares a variable \<open>err\<close> of
  its own with \<open>instanceGroup, err := ...Get(...).Do()\<close>, and the assignment
  \<open>err = computeSharedOperationWait(...)\<close> that ends the body writes to that inner variable,
  \<open>innerErr\<close> below: the variable of the condition keeps the result of the first wait
  through every iteration.
\<close>

function drainLoop ::
    "world \<Rightarrow> Operation \<Rightarrow> call \<Rightarrow> call \<Rightarrow> int \<Rightarrow> nat \<Rightarrow> string option \<Rightarrow>
     call list \<times> failure option" where
  "drainLoop w op g p currentSize n err =
     (case err of
        None \<Rightarrow> ([], None)
      | Some e \<Rightarrow>
          if currentSize > 0 then
            if \<not> Contains e ''timeout'' then ([], Some (Errorf e))
            else
              (case InstanceGroups_Get_Do w n of
                 Inl e1 \<Rightarrow> ([g], Some (Errorf (''Error getting instance group size: '' @ e1)))
               | Inr instanceGroupSize \<Rightarrow>
                   if instanceGroupSize \<ge> currentSize then ([g], Some (Errorf notShrinking))
                   else
                     (let innerErr = computeSharedOperationWait w op (Suc n)
                      in case drainLoop w op g p instanceGroupSize (Suc n) err of
                           (t, r) \<Rightarrow> (g # p # t, r)))
          else ([], None))"
  by pat_completeness auto
termination
  by (relation "measure (\<lambda>(w, op, g, p, currentSize, n, err). nat currentSize)") auto

text \<open>The two \<open>if zonalID.X == ""\<close> blocks of the delete.\<close>

definition resolveId ::
    "helpers \<Rightarrow> ResourceData \<Rightarrow> instanceGroupManagerId \<Rightarrow> failure + instanceGroupManagerId" where
  "resolveId h d zonalID =
     (case (if Project zonalID = [] then
              (case getProject h d of
                 (project, Some e) \<Rightarrow> Inl (Errorf e)
               | (project, None) \<Rightarrow> Inr (zonalID\<lparr>Project := project\<rparr>))
            else Inr zonalID) of
        Inl e \<Rightarrow> Inl e
      | Inr zonalID1 \<Rightarrow>
          if Zone zonalID1 = [] then
            (case getZone h d of
               (zone, Some e) \<Rightarrow> Inl (Errorf e)
             | (zone, None) \<Rightarrow> Inr (zonalID1\<lparr>Zone := zone\<rparr>))
          else Inr zonalID1)"

definition resourceComputeInstanceGroupManagerDelete ::
    "helpers \<Rightarrow> world \<Rightarrow> ResourceData \<Rightarrow> call list \<times> ResourceData \<times> failure option" where
  "resourceComputeInstanceGroupManagerDelete h w d =
     (case parseInstanceGroupManagerId (ProjectRegex h) (d_Id d) of
        Inl e \<Rightarrow> ([], d, Some e)
      | Inr parsed \<Rightarrow>
     (case resolveId h d parsed of
        Inl e \<Rightarrow> ([], d, Some e)
      | Inr zonalID \<Rightarrow>
     (let c = CallDelete (Project zonalID) (Zone zonalID) (Name zonalID)
      in case retryDelete w c 0 (Delete_Do w 0) of
        (t, Inl e) \<Rightarrow>
          (c # t, d, Some (Errorf (''Error deleting instance group manager: '' @ e)))
      | (t, Inr op) \<Rightarrow>
     (case assertInt (d_Get d ''target_size'') of
        Inl e \<Rightarrow> (c # t, d, Some e)
      | Inr currentSize \<Rightarrow>
     (let p = CallOperationWait op (Project zonalID) ''Deleting InstanceGroupManager'';
          g = CallInstanceGroupsGet (Project zonalID) (Zone zonalID) (Name zonalID)
      in case drainLoop w op g p currentSize 0 (computeSharedOperationWait w op 0) of
        (t1, Some e) \<Rightarrow> (c # t @ p # t1, d, Some e)
      | (t1, None) \<Rightarrow> (c # t @ p # t1, d_SetId d [], None))))))"

section \<open>Import\<close>

definition invalidImportId :: string where
  "invalidImportId = ''Invalid instance group manager import ID. Expecting {projectId}/{zone}/{name}.''"

text \<open>
  The importer changes \<open>d\<close> in place before it can fail; the first component is \<open>d\<close> as
  the call leaves it, the second what the call returns.
\<close>

definition resourceInstanceGroupManagerStateImporter ::
    "helpers \<Rightarrow> ResourceData \<Rightarrow> ResourceData \<times> (failure + ResourceData list)" where
  "resourceInstanceGroupManagerStateImporter h d =
     (let d1 = d_Set d ''wait_for_instances'' (VBool False)
      in case parseInstanceGroupManagerId (ProjectRegex h) (d_Id d1) of
           Inl e \<Rightarrow> (d1, Inl e)
         | Inr zonalID \<Rightarrow>
             if Zone zonalID = [] \<or> Project zonalID = [] then (d1, Inl (Errorf invalidImportId))
             else
               (let d2 = d_Set d1 ''project'' (VString (Project zonalID));
                    d3 = d_Set d2 ''zone'' (VString (Zone zonalID));
                    d4 = d_Set d3 ''name'' (VString (Name zonalID))
                in (d4, Inr [d4])))"

section \<open>Reading traces and flattened values\<close>

text \<open>Which call of a trace is which request.\<close>

fun isPatch :: "call \<Rightarrow> bool" where
  "isPatch (CallPatch project zone name body) = True"
| "isPatch _ = False"

fun isSetNamedPorts :: "call \<Rightarrow> bool" where
  "isSetNamedPorts (CallSetNamedPorts project zone name namedPorts) = True"
| "isSetNamedPorts _ = False"

fun isResize :: "call \<Rightarrow> bool" where
  "isResize (CallResize project zone name targetSize) = True"
| "isResize _ = False"

text \<open>The calls a read can make.\<close>

fun isReadCall :: "call \<Rightarrow> bool" where
  "isReadCall (CallGet project zone name) = True"
| "isReadCall (CallZonalSearch region project) = True"
| "isReadCall CallWaitForState = True"
| "isReadCall _ = False"

text \<open>
  A patch request with its four optional fields and its forced-field list cleared: what
  is left shows whether anything else was put into the request.
\<close>

definition otherFields :: "InstanceGroupManager \<Rightarrow> InstanceGroupManager" where
  "otherFields m = m\<lparr>TargetPools := None, AutoHealingPolicies := None, Versions := None,
                      UpdatePolicy := None, ManagerForceSendFields := []\<rparr>"

text \<open>
  The numbers a fixed-or-percent block list presents, block by block, as the pair of its
  \<open>fixed\<close> and its \<open>percent\<close>. A key that is absent counts as zero, which is what the
  configuration holds for a field that was not set, and a Go \<open>int\<close> and \<open>int64\<close> of the same
  value are the same number. Two block lists present the same setting when these lists
  of pairs are equal.
\<close>

fun intOf :: "val \<Rightarrow> int" where
  "intOf (VInt n) = n"
| "intOf (VInt64 n) = n"
| "intOf _ = 0"

fun blockOf :: "val \<Rightarrow> int \<times> int" where
  "blockOf (VMap m) = (intOf (index m ''fixed''), intOf (index m ''percent''))"
| "blockOf _ = (0, 0)"

fun blocksOf :: "val \<Rightarrow> (int \<times> int) list" where
  "blocksOf (VList ms) = map blockOf ms"
| "blocksOf _ = []"

text \<open>A pair of a fixed and a percent number of which at most one is not zero.\<close>

definition exclusive :: "int \<times> int \<Rightarrow> bool" where
  "exclusive b = (fst b = 0 \<or> snd b = 0)"

text \<open>A field of the one map \<open>flattenUpdatePolicy\<close> returns.\<close>

fun policyField :: "val \<Rightarrow> string \<Rightarrow> val" where
  "policyField (VList [VMap m]) key = index m key"
| "policyField _ key = VNil"

section \<open>Sample inputs\<close>

text \<open>
  A provider whose project pattern matches \<open>my-project\<close> alone, with a default project,
  zone and region, and a framework that accepts every \<open>d.Set\<close>.
\<close>

definition sampleHelpers :: helpers where
  "sampleHelpers =
     \<lparr>ProjectRegex = (\<lambda>s. s = ''my-project''),
      getProject = (\<lambda>d. (''my-project'', None)),
      getZone = (\<lambda>d. (''us-central1-a'', None)),
      getRegion = (\<lambda>d. (''us-central1'', None)),
      convertStringSet = (\<lambda>vs. Inr (map (\<lambda>v. case v of VString s \<Rightarrow> s | _ \<Rightarrow> []) vs)),
      ConvertSelfLinkToV1 = (\<lambda>s. s),
      GetResourceNameFromSelfLink = (\<lambda>s. s),
      handleNotFoundError = (\<lambda>e d resource. (d_SetId d [], None)),
      Set_error = (\<lambda>key. None)\<rparr>"

text \<open>
  A remote side that accepts every request; the answers to the delete requests, to the
  polls and to the size reads are given.
\<close>

definition sampleWorld ::
    "(nat \<Rightarrow> string + Operation) \<Rightarrow> (nat \<Rightarrow> string option) \<Rightarrow> (nat \<Rightarrow> string + int) \<Rightarrow> world" where
  "sampleWorld deletes polls sizes =
     \<lparr>Get_Do = Inr (emptyManager\<lparr>ManagerName := ''igm-1''\<rparr>),
      getZonalBetaResourceFromRegion = Inr None,
      Patch_Do = Inr (Operation ''operation-patch''),
      SetNamedPorts_Do = Inr (Operation ''operation-ports''),
      Resize_Do = Inr (Operation ''operation-resize''),
      Delete_Do = deletes,
      InstanceGroups_Get_Do = sizes,
      computeSharedOperationWait = (\<lambda>op. polls),
      WaitForState = None\<rparr>"

definition sampleId :: instanceGroupManagerId where
  "sampleId = \<lparr>Project = ''my-project'', Zone = ''us-central1-a'', Name = ''igm-1''\<rparr>"

text \<open>A stored resource with the given attributes and changed keys.\<close>

definition sampleData :: "(string \<Rightarrow> val option) \<Rightarrow> (string \<Rightarrow> bool) \<Rightarrow> ResourceData" where
  "sampleData as changed =
     \<lparr>d_Id = ''my-project/us-central1-a/igm-1'', attrs = as, HasChange = changed\<rparr>"

definition sampleAttrs :: "string \<Rightarrow> val option" where
  "sampleAttrs =
     [''fingerprint'' \<mapsto> VString ''abc'',
      ''name'' \<mapsto> VString ''igm-1'',
      ''target_size'' \<mapsto> VInt 10,
      ''target_pools'' \<mapsto> VSet [VString ''pool-a''],
      ''named_port'' \<mapsto> VSet [VMap [''name'' \<mapsto> VString ''http'', ''port'' \<mapsto> VInt 80]],
      ''wait_for_instances'' \<mapsto> VBool True]"

section \<open>Properties of the identifier codec\<close>

lemma Split_no_sep: "sep \<notin> set s \<Longrightarrow> Split s sep = [s]"
  by (induction s) auto

lemma Split_append_sep:
  "sep \<notin> set p \<Longrightarrow> Split (p @ sep # r) sep = p # Split r sep"
  by (induction p) auto

lemma nameChar_slash: "\<not> nameChar (CHR ''/'')"
  by (simp add: nameChar_def)

lemma namePlus_no_slash: "namePlus s \<Longrightarrow> CHR ''/'' \<notin> set s"
proof
  assume np: "namePlus s" and mem: "CHR ''/'' \<in> set s"
  from np have "list_all nameChar s" by (simp add: namePlus_def)
  with mem have "nameChar (CHR ''/'')" by (simp add: list_all_iff)
  with nameChar_slash show False by simp
qed

lemma instanceGroupManagerIdRegex_intro:
  assumes "P p" "namePlus z" "namePlus n"
  shows "instanceGroupManagerIdRegex P (p @ ''/'' @ z @ ''/'' @ n)"
proof -
  define s where "s = p @ ''/'' @ z @ ''/'' @ n"
  define i where "i = length p"
  define j where "j = length p + Suc (length z)"
  have "i < length s" by (simp add: s_def i_def)
  then have i: "i \<in> set [0 ..< length s]" by (simp only: set_upt atLeastLessThan_iff) simp
  have "Suc i \<le> j \<and> j < length s" by (simp add: s_def i_def j_def)
  then have j: "j \<in> set [Suc i ..< length s]" by (simp only: set_upt atLeastLessThan_iff)
  have a: "take i s = p" by (simp add: s_def i_def)
  have b: "s ! i = CHR ''/''" by (simp add: s_def i_def nth_append)
  have c: "take (j - Suc i) (drop (Suc i) s) = z" by (simp add: s_def i_def j_def)
  have d: "s ! j = CHR ''/''" by (simp add: s_def j_def nth_append)
  have e: "drop (Suc j) s = n" by (simp add: s_def j_def)
  have "instanceGroupManagerIdRegex P s"
    unfolding instanceGroupManagerIdRegex_def list_ex_iff
    using i j a b c d e assms by blast
  then show ?thesis by (simp only: s_def)
qed

lemma instanceGroupManagerIdRegex_has_slash:
  "instanceGroupManagerIdRegex P s \<Longrightarrow> CHR ''/'' \<in> set s"
  unfolding instanceGroupManagerIdRegex_def list_ex_iff
  by (metis atLeastLessThan_iff nth_mem set_upt)

lemma instanceGroupManagerIdRegex_elim:
  assumes "instanceGroupManagerIdRegex P s"
  shows "\<exists>p z n. s = p @ ''/'' @ z @ ''/'' @ n \<and> P p \<and> namePlus z \<and> namePlus n"
proof -
  from assms obtain i j where ij: "i < length s" "Suc i \<le> j" "j < length s"
    and m: "P (take i s)" "s ! i = CHR ''/''"
       "namePlus (take (j - Suc i) (drop (Suc i) s))" "s ! j = CHR ''/''"
       "namePlus (drop (Suc j) s)"
    unfolding instanceGroupManagerIdRegex_def list_ex_iff by auto
  let ?r = "drop (Suc i) s"
  have s1: "s = take i s @ CHR ''/'' # ?r"
    using ij(1) m(2) id_take_nth_drop by metis
  have jr: "j - Suc i < length ?r" using ij by simp
  have rj: "?r ! (j - Suc i) = CHR ''/''" using ij m(4) by simp
  have dr: "drop (Suc (j - Suc i)) ?r = drop (Suc j) s" using ij by simp
  have s2: "?r = take (j - Suc i) ?r @ CHR ''/'' # drop (Suc j) s"
    using id_take_nth_drop[OF jr] rj dr by simp
  have "s = take i s @ ''/'' @ take (j - Suc i) ?r @ ''/'' @ drop (Suc j) s"
    using s1 s2 by simp
  with m show ?thesis by blast
qed

lemma Split_length: "length (Split s sep) = Suc (length (filter (\<lambda>c. c = sep) s))"
  by (induction s) (auto split: list.splits)

text \<open>
  The text the three-part pattern matches holds two slashes at least, so the three
  parts \<open>parseInstanceGroupManagerId\<close> indexes exist: parsing never panics.
\<close>

lemma parseInstanceGroupManagerId_no_panic:
  "parseInstanceGroupManagerId projectRegex s \<noteq> Inl (Panic m)"
proof (cases "instanceGroupManagerIdRegex projectRegex s")
  case True
  then obtain p z n where s: "s = p @ ''/'' @ z @ ''/'' @ n"
    using instanceGroupManagerIdRegex_elim by blast
  have "2 \<le> length (filter (\<lambda>c. c = CHR ''/'') s)" by (simp add: s)
  then have "3 \<le> length (Split s (CHR ''/''))" by (simp add: Split_length)
  then have "\<exists>a b c r. Split s (CHR ''/'') = a # b # c # r"
    by (metis Suc_le_length_iff numeral_3_eq_3)
  then obtain a b c r where "Split s (CHR ''/'') = a # b # c # r" by blast
  with True show ?thesis by (simp add: parseInstanceGroupManagerId_def)
next
  case False
  then show ?thesis by (simp add: parseInstanceGroupManagerId_def)
qed

text \<open>
  Claim C1. A triple is valid for the three-part form when its project is matched by the
  project pattern (whose character classes hold no slash) and its zone and name are
  matched by \<open>[a-z0-9-]+\<close>. For every such triple, parsing the string \<open>terraformId\<close>
  builds, \<open>project/zone/name\<close>, gives back the triple.
\<close>

theorem terraformId_roundtrip:
  assumes "projectRegex (Project x)" "CHR ''/'' \<notin> set (Project x)"
    "namePlus (Zone x)" "namePlus (Name x)"
  shows "parseInstanceGroupManagerId projectRegex (terraformId x) = Inr x"
proof -
  have m: "instanceGroupManagerIdRegex projectRegex (terraformId x)"
    unfolding terraformId_def using assms instanceGroupManagerIdRegex_intro by blast
  have z: "CHR ''/'' \<notin> set (Zone x)" and n: "CHR ''/'' \<notin> set (Name x)"
    using assms namePlus_no_slash by blast+
  have "Split (terraformId x) (CHR ''/'') = [Project x, Zone x, Name x]"
    unfolding terraformId_def
    using assms(2) z n by (simp add: Split_append_sep Split_no_sep)
  with m show ?thesis by (simp add: parseInstanceGroupManagerId_def)
qed

theorem terraformId_roundtrip_witness:
  "parseInstanceGroupManagerId (\<lambda>s. s = ''my-project'')
     (terraformId \<lparr>Project = ''my-project'', Zone = ''us-central1-a'', Name = ''igm-1''\<rparr>)
   = Inr \<lparr>Project = ''my-project'', Zone = ''us-central1-a'', Name = ''igm-1''\<rparr>
   \<and> terraformId \<lparr>Project = ''my-project'', Zone = ''us-central1-a'', Name = ''igm-1''\<rparr>
     = ''my-project/us-central1-a/igm-1''"
proof -
  have z: "namePlus ''us-central1-a''" by (simp add: namePlus_def nameChar_def)
  have n: "namePlus ''igm-1''" by (simp add: namePlus_def nameChar_def)
  have p: "CHR ''/'' \<notin> set ''my-project''" by simp
  show ?thesis
    using terraformId_roundtrip [of "\<lambda>s. s = ''my-project''"
        "\<lparr>Project = ''my-project'', Zone = ''us-central1-a'', Name = ''igm-1''\<rparr>"] z n p
    by (simp add: terraformId_def)
qed

text \<open>
  Claim C2. A bare name, a string matched by \<open>^[a-z0-9-]+$\<close>, parses to the triple with
  an empty project and zone; a string matched by neither pattern is rejected with the
  invalid-specifier error.
\<close>

theorem parse_bare_name_or_invalid:
  "(instanceGroupManagerIdNameRegex s \<longrightarrow>
      parseInstanceGroupManagerId projectRegex s = Inr \<lparr>Project = [], Zone = [], Name = s\<rparr>) \<and>
   (\<not> instanceGroupManagerIdRegex projectRegex s \<and> \<not> instanceGroupManagerIdNameRegex s \<longrightarrow>
      parseInstanceGroupManagerId projectRegex s = Inl (Errorf invalidSpecifier))"
proof (intro conjI impI)
  assume n: "instanceGroupManagerIdNameRegex s"
  then have "CHR ''/'' \<notin> set s"
    by (simp add: instanceGroupManagerIdNameRegex_def namePlus_no_slash)
  then have "\<not> instanceGroupManagerIdRegex projectRegex s"
    using instanceGroupManagerIdRegex_has_slash by blast
  with n show "parseInstanceGroupManagerId projectRegex s = Inr \<lparr>Project = [], Zone = [], Name = s\<rparr>"
    by (simp add: parseInstanceGroupManagerId_def)
next
  assume "\<not> instanceGroupManagerIdRegex projectRegex s \<and> \<not> instanceGroupManagerIdNameRegex s"
  then show "parseInstanceGroupManagerId projectRegex s = Inl (Errorf invalidSpecifier)"
    by (simp add: parseInstanceGroupManagerId_def)
qed

theorem parse_bare_name_or_invalid_witness:
  "parseInstanceGroupManagerId (\<lambda>s. s = ''p'') ''igm-1''
     = Inr \<lparr>Project = [], Zone = [], Name = ''igm-1''\<rparr>
   \<and> parseInstanceGroupManagerId (\<lambda>s. s = ''p'') ''p//n'' = Inl (Errorf invalidSpecifier)
   \<and> parseInstanceGroupManagerId (\<lambda>s. s = ''p'') ''Igm_1'' = Inl (Errorf invalidSpecifier)"
proof -
  have a: "instanceGroupManagerIdNameRegex ''igm-1''"
    by (simp add: instanceGroupManagerIdNameRegex_def namePlus_def nameChar_def)
  have b: "\<not> instanceGroupManagerIdRegex (\<lambda>s. s = ''p'') ''p//n''
           \<and> \<not> instanceGroupManagerIdNameRegex ''p//n''"
    by code_simp
  have c: "\<not> instanceGroupManagerIdRegex (\<lambda>s. s = ''p'') ''Igm_1''
           \<and> \<not> instanceGroupManagerIdNameRegex ''Igm_1''"
    by code_simp
  show ?thesis
    using parse_bare_name_or_invalid [of "''igm-1''" "\<lambda>s. s = ''p''"]
      parse_bare_name_or_invalid [of "''p//n''" "\<lambda>s. s = ''p''"]
      parse_bare_name_or_invalid [of "''Igm_1''" "\<lambda>s. s = ''p''"] a b c
    by blast
qed

section \<open>Properties of the field transcoders\<close>

lemma expandFixedOrPercent_percent:
  "index data ''percent'' = VInt p \<Longrightarrow> 0 < p \<Longrightarrow>
   expandFixedOrPercent [VMap data] =
     Inr \<lparr>Fixed = 0, Percent = p, ForceSendFields = [], NullFields = []\<rparr>"
  by (simp add: expandFixedOrPercent_def emptyFixedOrPercent_def)

lemma expandFixedOrPercent_fixed:
  "index data ''percent'' = VInt p \<Longrightarrow> p \<le> 0 \<Longrightarrow> index data ''fixed'' = VInt q \<Longrightarrow>
   expandFixedOrPercent [VMap data] =
     Inr \<lparr>Fixed = q, Percent = 0, ForceSendFields = [''Fixed''], NullFields = []\<rparr>"
  by (simp add: expandFixedOrPercent_def emptyFixedOrPercent_def)

lemma flattenFixedOrPercent_percent:
  "0 < Percent f \<Longrightarrow>
   flattenFixedOrPercent (Some f) = Inr (VList [VMap [''percent'' \<mapsto> VInt64 (Percent f)]])"
  by (simp add: flattenFixedOrPercent_def)

lemma flattenFixedOrPercent_fixed:
  "Percent f \<le> 0 \<Longrightarrow> 0 < Fixed f \<Longrightarrow>
   flattenFixedOrPercent (Some f) = Inr (VList [VMap [''fixed'' \<mapsto> VInt64 (Fixed f)]])"
  by (simp add: flattenFixedOrPercent_def)

lemma flattenFixedOrPercent_empty:
  "Percent f \<le> 0 \<Longrightarrow> Fixed f \<le> 0 \<Longrightarrow> flattenFixedOrPercent (Some f) = Inr (VList [])"
  by (simp add: flattenFixedOrPercent_def)

lemma flattenFixedOrPercent_exclusive:
  assumes "flattenFixedOrPercent p = Inr out"
  shows "list_all exclusive (blocksOf out)"
proof (cases p)
  case None
  with assms show ?thesis by (simp add: flattenFixedOrPercent_def)
next
  case (Some f)
  with assms show ?thesis
    by (auto simp: flattenFixedOrPercent_def exclusive_def index_def split: if_splits)
qed

lemma flattenFixedOrPercent_precedence:
  "0 < Percent f \<Longrightarrow> \<exists>out. flattenFixedOrPercent (Some f) = Inr out \<and> blocksOf out = [(0, Percent f)]"
  by (simp add: flattenFixedOrPercent_def index_def)

lemma flattenVersionsLoop_exclusive:
  "flattenVersionsLoop conv versions = Inr out \<Longrightarrow> v \<in> set out \<Longrightarrow>
   \<exists>m ts. v = VMap m \<and> m ''target_size'' = Some ts \<and> list_all exclusive (blocksOf ts)"
proof (induction versions arbitrary: out)
  case Nil
  then show ?case by simp
next
  case (Cons version rest)
  from Cons.prems(1) obtain ts r where
    ts: "flattenFixedOrPercent (TargetSize version) = Inr ts" and
    r: "flattenVersionsLoop conv rest = Inr r" and
    out: "out = VMap [''name'' \<mapsto> VString (VersionName version),
                      ''instance_template'' \<mapsto> VString (conv (InstanceTemplate version)),
                      ''target_size'' \<mapsto> ts] # r"
    by (auto split: sum.splits)
  from Cons.prems(2) out consider
    "v = VMap [''name'' \<mapsto> VString (VersionName version),
               ''instance_template'' \<mapsto> VString (conv (InstanceTemplate version)),
               ''target_size'' \<mapsto> ts]" | "v \<in> set r"
    by auto
  then show ?case
  proof cases
    case 1
    with flattenFixedOrPercent_exclusive [OF ts] show ?thesis by simp
  next
    case 2
    with Cons.IH [OF r] show ?thesis by blast
  qed
qed

lemma flattenUpdatePolicy_copies:
  "policyField (flattenUpdatePolicy (Some up)) ''max_surge_fixed''
     = (case MaxSurge up of None \<Rightarrow> VInt 0 | Some f \<Rightarrow> VInt64 (Fixed f))"
  "policyField (flattenUpdatePolicy (Some up)) ''max_surge_percent''
     = (case MaxSurge up of None \<Rightarrow> VInt 0 | Some f \<Rightarrow> VInt64 (Percent f))"
  "policyField (flattenUpdatePolicy (Some up)) ''max_unavailable_fixed''
     = (case MaxUnavailable up of None \<Rightarrow> VInt 0 | Some f \<Rightarrow> VInt64 (Fixed f))"
  "policyField (flattenUpdatePolicy (Some up)) ''max_unavailable_percent''
     = (case MaxUnavailable up of None \<Rightarrow> VInt 0 | Some f \<Rightarrow> VInt64 (Percent f))"
  by (simp_all add: flattenUpdatePolicy_def index_def)

text \<open>
  Claim C3, as amended. A configuration block in which exactly one of \<open>fixed\<close> and \<open>percent\<close>
  was set, to a number greater than zero (the other field holds zero), is expanded to a
  structure that flattens to one block holding that field alone with the same number:
  the flattened list presents the setting of the configuration.
\<close>

theorem fixedOrPercent_roundtrip_positive:
  assumes "0 < n"
  shows "(\<exists>f. expandFixedOrPercent [VMap [''fixed'' \<mapsto> VInt n, ''percent'' \<mapsto> VInt 0]] = Inr f \<and>
            flattenFixedOrPercent (Some f) = Inr (VList [VMap [''fixed'' \<mapsto> VInt64 n]]) \<and>
            blocksOf (VList [VMap [''fixed'' \<mapsto> VInt64 n]])
              = blocksOf (VList [VMap [''fixed'' \<mapsto> VInt n, ''percent'' \<mapsto> VInt 0]])) \<and>
         (\<exists>f. expandFixedOrPercent [VMap [''fixed'' \<mapsto> VInt 0, ''percent'' \<mapsto> VInt n]] = Inr f \<and>
            flattenFixedOrPercent (Some f) = Inr (VList [VMap [''percent'' \<mapsto> VInt64 n]]) \<and>
            blocksOf (VList [VMap [''percent'' \<mapsto> VInt64 n]])
              = blocksOf (VList [VMap [''fixed'' \<mapsto> VInt 0, ''percent'' \<mapsto> VInt n]]))"
proof (intro conjI)
  let ?data = "[''fixed'' \<mapsto> VInt n, ''percent'' \<mapsto> VInt 0]"
  have e: "expandFixedOrPercent [VMap ?data]
             = Inr \<lparr>Fixed = n, Percent = 0, ForceSendFields = [''Fixed''], NullFields = []\<rparr>"
    by (rule expandFixedOrPercent_fixed [of _ 0]) (simp_all add: index_def)
  have f: "flattenFixedOrPercent (Some \<lparr>Fixed = n, Percent = 0, ForceSendFields = [''Fixed''], NullFields = []\<rparr>)
             = Inr (VList [VMap [''fixed'' \<mapsto> VInt64 n]])"
    using assms by (simp add: flattenFixedOrPercent_fixed)
  have b: "blocksOf (VList [VMap [''fixed'' \<mapsto> VInt64 n]]) = blocksOf (VList [VMap ?data])"
    by (simp add: index_def)
  from e f b show "\<exists>f. expandFixedOrPercent [VMap ?data] = Inr f \<and>
            flattenFixedOrPercent (Some f) = Inr (VList [VMap [''fixed'' \<mapsto> VInt64 n]]) \<and>
            blocksOf (VList [VMap [''fixed'' \<mapsto> VInt64 n]]) = blocksOf (VList [VMap ?data])"
    by blast
next
  let ?data = "[''fixed'' \<mapsto> VInt 0, ''percent'' \<mapsto> VInt n]"
  have e: "expandFixedOrPercent [VMap ?data]
             = Inr \<lparr>Fixed = 0, Percent = n, ForceSendFields = [], NullFields = []\<rparr>"
    using assms by (intro expandFixedOrPercent_percent) (simp_all add: index_def)
  have f: "flattenFixedOrPercent (Some \<lparr>Fixed = 0, Percent = n, ForceSendFields = [], NullFields = []\<rparr>)
             = Inr (VList [VMap [''percent'' \<mapsto> VInt64 n]])"
    using assms by (simp add: flattenFixedOrPercent_percent)
  have b: "blocksOf (VList [VMap [''percent'' \<mapsto> VInt64 n]]) = blocksOf (VList [VMap ?data])"
    by (simp add: index_def)
  from e f b show "\<exists>f. expandFixedOrPercent [VMap ?data] = Inr f \<and>
            flattenFixedOrPercent (Some f) = Inr (VList [VMap [''percent'' \<mapsto> VInt64 n]]) \<and>
            blocksOf (VList [VMap [''percent'' \<mapsto> VInt64 n]]) = blocksOf (VList [VMap ?data])"
    by blast
qed

theorem fixedOrPercent_roundtrip_positive_witness:
  "(\<exists>f. expandFixedOrPercent [VMap [''fixed'' \<mapsto> VInt 3, ''percent'' \<mapsto> VInt 0]] = Inr f \<and>
            flattenFixedOrPercent (Some f) = Inr (VList [VMap [''fixed'' \<mapsto> VInt64 3]]) \<and>
            blocksOf (VList [VMap [''fixed'' \<mapsto> VInt64 3]])
              = blocksOf (VList [VMap [''fixed'' \<mapsto> VInt 3, ''percent'' \<mapsto> VInt 0]])) \<and>
   (\<exists>f. expandFixedOrPercent [VMap [''fixed'' \<mapsto> VInt 0, ''percent'' \<mapsto> VInt 3]] = Inr f \<and>
            flattenFixedOrPercent (Some f) = Inr (VList [VMap [''percent'' \<mapsto> VInt64 3]]) \<and>
            blocksOf (VList [VMap [''percent'' \<mapsto> VInt64 3]])
              = blocksOf (VList [VMap [''fixed'' \<mapsto> VInt 0, ''percent'' \<mapsto> VInt 3]]))"
  by (rule fixedOrPercent_roundtrip_positive) simp

text \<open>
  The claim as it was stated, for a field that is not negative, fails at zero: a block
  with \<open>fixed = 0\<close> expands to a structure that flattens to the empty list, which is not
  the one-block configuration.
\<close>

theorem fixedOrPercent_roundtrip_zero_counterexample:
  "expandFixedOrPercent [VMap [''fixed'' \<mapsto> VInt 0, ''percent'' \<mapsto> VInt 0]]
     = Inr \<lparr>Fixed = 0, Percent = 0, ForceSendFields = [''Fixed''], NullFields = []\<rparr>
   \<and> flattenFixedOrPercent (Some \<lparr>Fixed = 0, Percent = 0, ForceSendFields = [''Fixed''], NullFields = []\<rparr>)
     = Inr (VList [])
   \<and> blocksOf (VList []) \<noteq> blocksOf (VList [VMap [''fixed'' \<mapsto> VInt 0, ''percent'' \<mapsto> VInt 0]])"
  by (simp add: expandFixedOrPercent_def emptyFixedOrPercent_def flattenFixedOrPercent_def index_def)

text \<open>
  Claim C4. The precedence of the transcoder in both directions. Reading a server value:
  one map holding \<open>percent\<close> alone when the percent is positive, else one map holding
  \<open>fixed\<close> alone when the fixed number is positive, else the empty list. Writing a
  configured block: the percent when it is positive, else the fixed number, listed in
  \<open>ForceSendFields\<close> so that it is sent even when it is zero.
\<close>

theorem fixedOrPercent_precedence:
  "(0 < Percent f \<longrightarrow>
      (\<exists>m. flattenFixedOrPercent (Some f) = Inr (VList [VMap m]) \<and>
           dom m = {''percent''} \<and> m ''percent'' = Some (VInt64 (Percent f)))) \<and>
   (Percent f \<le> 0 \<and> 0 < Fixed f \<longrightarrow>
      (\<exists>m. flattenFixedOrPercent (Some f) = Inr (VList [VMap m]) \<and>
           dom m = {''fixed''} \<and> m ''fixed'' = Some (VInt64 (Fixed f)))) \<and>
   (Percent f \<le> 0 \<and> Fixed f \<le> 0 \<longrightarrow> flattenFixedOrPercent (Some f) = Inr (VList [])) \<and>
   (index data ''percent'' = VInt p \<and> 0 < p \<longrightarrow>
      expandFixedOrPercent [VMap data] =
        Inr \<lparr>Fixed = 0, Percent = p, ForceSendFields = [], NullFields = []\<rparr>) \<and>
   (index data ''percent'' = VInt p \<and> p \<le> 0 \<and> index data ''fixed'' = VInt q \<longrightarrow>
      expandFixedOrPercent [VMap data] =
        Inr \<lparr>Fixed = q, Percent = 0, ForceSendFields = [''Fixed''], NullFields = []\<rparr>)"
proof (intro conjI impI)
  assume "0 < Percent f"
  then have "flattenFixedOrPercent (Some f) = Inr (VList [VMap [''percent'' \<mapsto> VInt64 (Percent f)]])"
    by (rule flattenFixedOrPercent_percent)
  then show "\<exists>m. flattenFixedOrPercent (Some f) = Inr (VList [VMap m]) \<and>
           dom m = {''percent''} \<and> m ''percent'' = Some (VInt64 (Percent f))"
    by simp
next
  assume "Percent f \<le> 0 \<and> 0 < Fixed f"
  then have "flattenFixedOrPercent (Some f) = Inr (VList [VMap [''fixed'' \<mapsto> VInt64 (Fixed f)]])"
    by (simp add: flattenFixedOrPercent_fixed)
  then show "\<exists>m. flattenFixedOrPercent (Some f) = Inr (VList [VMap m]) \<and>
           dom m = {''fixed''} \<and> m ''fixed'' = Some (VInt64 (Fixed f))"
    by simp
next
  assume "Percent f \<le> 0 \<and> Fixed f \<le> 0"
  then show "flattenFixedOrPercent (Some f) = Inr (VList [])"
    by (simp add: flattenFixedOrPercent_empty)
next
  assume "index data ''percent'' = VInt p \<and> 0 < p"
  then show "expandFixedOrPercent [VMap data] =
        Inr \<lparr>Fixed = 0, Percent = p, ForceSendFields = [], NullFields = []\<rparr>"
    by (simp add: expandFixedOrPercent_percent)
next
  assume "index data ''percent'' = VInt p \<and> p \<le> 0 \<and> index data ''fixed'' = VInt q"
  then show "expandFixedOrPercent [VMap data] =
        Inr \<lparr>Fixed = q, Percent = 0, ForceSendFields = [''Fixed''], NullFields = []\<rparr>"
    by (simp add: expandFixedOrPercent_fixed)
qed



theorem fixedOrPercent_precedence_witness:
  "(\<exists>m. flattenFixedOrPercent (Some \<lparr>Fixed = 4, Percent = 25, ForceSendFields = [], NullFields = []\<rparr>)
          = Inr (VList [VMap m]) \<and> dom m = {''percent''} \<and> m ''percent'' = Some (VInt64 25))
   \<and> (\<exists>m. flattenFixedOrPercent (Some \<lparr>Fixed = 4, Percent = 0, ForceSendFields = [], NullFields = []\<rparr>)
          = Inr (VList [VMap m]) \<and> dom m = {''fixed''} \<and> m ''fixed'' = Some (VInt64 4))
   \<and> flattenFixedOrPercent (Some \<lparr>Fixed = 0, Percent = 0, ForceSendFields = [], NullFields = []\<rparr>)
     = Inr (VList [])
   \<and> expandFixedOrPercent [VMap [''fixed'' \<mapsto> VInt 4, ''percent'' \<mapsto> VInt 25]]
     = Inr \<lparr>Fixed = 0, Percent = 25, ForceSendFields = [], NullFields = []\<rparr>
   \<and> expandFixedOrPercent [VMap [''fixed'' \<mapsto> VInt 0, ''percent'' \<mapsto> VInt 0]]
     = Inr \<lparr>Fixed = 0, Percent = 0, ForceSendFields = [''Fixed''], NullFields = []\<rparr>"
proof -
  let ?a = "\<lparr>Fixed = 4, Percent = 25, ForceSendFields = [], NullFields = []\<rparr>"
  let ?b = "\<lparr>Fixed = 4, Percent = 0, ForceSendFields = [], NullFields = []\<rparr>"
  let ?c = "\<lparr>Fixed = 0, Percent = 0, ForceSendFields = [], NullFields = []\<rparr>"
  let ?da = "[''fixed'' \<mapsto> VInt 4, ''percent'' \<mapsto> VInt 25]"
  let ?db = "[''fixed'' \<mapsto> VInt 0, ''percent'' \<mapsto> VInt 0]"
  have h1: "0 < Percent ?a" by simp
  have h2: "Percent ?b \<le> 0 \<and> 0 < Fixed ?b" by simp
  have h3: "Percent ?c \<le> 0 \<and> Fixed ?c \<le> 0" by simp
  have h4: "index ?da ''percent'' = VInt 25 \<and> (0::int) < 25" by (simp add: index_def)
  have h5: "index ?db ''percent'' = VInt 0 \<and> (0::int) \<le> 0 \<and> index ?db ''fixed'' = VInt 0"
    by (simp add: index_def)
  note t1 = fixedOrPercent_precedence [of ?a ?da 25 0, THEN conjunct1, THEN mp, OF h1]
  note t2 = fixedOrPercent_precedence [of ?b ?da 25 0, THEN conjunct2, THEN conjunct1, THEN mp, OF h2]
  note t3 = fixedOrPercent_precedence [of ?c ?da 25 0, THEN conjunct2, THEN conjunct2, THEN conjunct1, THEN mp, OF h3]
  note t4 = fixedOrPercent_precedence [of ?a ?da 25 0, THEN conjunct2, THEN conjunct2, THEN conjunct2, THEN conjunct1,
      THEN mp, OF h4]
  note t5 = fixedOrPercent_precedence [of ?a ?db 0 0, THEN conjunct2, THEN conjunct2, THEN conjunct2, THEN conjunct2,
      THEN mp, OF h5]
  have s1: "Percent ?a = 25" and s2: "Fixed ?b = 4" by simp_all
  show ?thesis
    using t1 [unfolded s1] t2 [unfolded s2] t3 t4 t5 by (intro conjI)
qed

text \<open>
  Claim C9, as amended. What \<open>flattenFixedOrPercent\<close> writes back, also as the
  \<open>target_size\<close> of every version \<open>flattenVersions\<close> returns, never presents a fixed and a
  percent number that are both not zero, and a positive percent takes precedence. For the
  update policy, \<open>flattenUpdatePolicy\<close> writes the fixed and the percent number of
  \<open>MaxSurge\<close> and of \<open>MaxUnavailable\<close> as the server reports them: no precedence is applied
  there, and the two are exclusive in the state exactly when they are in the server value.
\<close>

theorem flatten_fixed_percent_exclusive:
  "(flattenFixedOrPercent p = Inr out \<longrightarrow> list_all exclusive (blocksOf out)) \<and>
   (0 < Percent f \<longrightarrow>
      (\<exists>out. flattenFixedOrPercent (Some f) = Inr out \<and> blocksOf out = [(0, Percent f)])) \<and>
   (flattenVersions conv versions = Inr (VList vs) \<and> v \<in> set vs \<longrightarrow>
      (\<exists>m ts. v = VMap m \<and> m ''target_size'' = Some ts \<and> list_all exclusive (blocksOf ts))) \<and>
   (MaxSurge up = Some s \<longrightarrow>
      policyField (flattenUpdatePolicy (Some up)) ''max_surge_fixed'' = VInt64 (Fixed s) \<and>
      policyField (flattenUpdatePolicy (Some up)) ''max_surge_percent'' = VInt64 (Percent s)) \<and>
   (MaxUnavailable up = Some u \<longrightarrow>
      policyField (flattenUpdatePolicy (Some up)) ''max_unavailable_fixed'' = VInt64 (Fixed u) \<and>
      policyField (flattenUpdatePolicy (Some up)) ''max_unavailable_percent'' = VInt64 (Percent u))"
proof (intro conjI impI)
  assume "flattenFixedOrPercent p = Inr out"
  then show "list_all exclusive (blocksOf out)" by (rule flattenFixedOrPercent_exclusive)
next
  assume "0 < Percent f"
  then show "\<exists>out. flattenFixedOrPercent (Some f) = Inr out \<and> blocksOf out = [(0, Percent f)]"
    by (rule flattenFixedOrPercent_precedence)
next
  assume a: "flattenVersions conv versions = Inr (VList vs) \<and> v \<in> set vs"
  then have "flattenVersionsLoop conv versions = Inr vs"
    by (simp add: flattenVersions_def split: sum.splits)
  with a show "\<exists>m ts. v = VMap m \<and> m ''target_size'' = Some ts \<and> list_all exclusive (blocksOf ts)"
    using flattenVersionsLoop_exclusive by blast
next
  assume "MaxSurge up = Some s"
  then show "policyField (flattenUpdatePolicy (Some up)) ''max_surge_fixed'' = VInt64 (Fixed s)"
    and "policyField (flattenUpdatePolicy (Some up)) ''max_surge_percent'' = VInt64 (Percent s)"
    by (simp_all add: flattenUpdatePolicy_copies)
next
  assume "MaxUnavailable up = Some u"
  then show "policyField (flattenUpdatePolicy (Some up)) ''max_unavailable_fixed'' = VInt64 (Fixed u)"
    and "policyField (flattenUpdatePolicy (Some up)) ''max_unavailable_percent'' = VInt64 (Percent u)"
    by (simp_all add: flattenUpdatePolicy_copies)
qed

theorem flatten_fixed_percent_exclusive_witness:
  "list_all exclusive (blocksOf (VList [VMap [''percent'' \<mapsto> VInt64 50]])) \<and>
   (\<exists>out. flattenFixedOrPercent
             (Some \<lparr>Fixed = 3, Percent = 50, ForceSendFields = [], NullFields = []\<rparr>) = Inr out \<and>
          blocksOf out = [(0, 50)]) \<and>
   (\<exists>m ts. VMap [''name'' \<mapsto> VString ''v1'', ''instance_template'' \<mapsto> VString ''t1'',
                  ''target_size'' \<mapsto> VList [VMap [''percent'' \<mapsto> VInt64 50]]] = VMap m \<and>
           m ''target_size'' = Some ts \<and> list_all exclusive (blocksOf ts)) \<and>
   policyField (flattenUpdatePolicy (Some \<lparr>MinimalAction = ''REPLACE'', Type = ''PROACTIVE'',
       MaxSurge = Some \<lparr>Fixed = 3, Percent = 0, ForceSendFields = [], NullFields = []\<rparr>,
       MaxUnavailable = Some \<lparr>Fixed = 0, Percent = 20, ForceSendFields = [], NullFields = []\<rparr>,
       MinReadySec = 0\<rparr>)) ''max_surge_fixed'' = VInt64 3 \<and>
   policyField (flattenUpdatePolicy (Some \<lparr>MinimalAction = ''REPLACE'', Type = ''PROACTIVE'',
       MaxSurge = Some \<lparr>Fixed = 3, Percent = 0, ForceSendFields = [], NullFields = []\<rparr>,
       MaxUnavailable = Some \<lparr>Fixed = 0, Percent = 20, ForceSendFields = [], NullFields = []\<rparr>,
       MinReadySec = 0\<rparr>)) ''max_unavailable_percent'' = VInt64 20"
proof -
  let ?f = "\<lparr>Fixed = 3, Percent = 50, ForceSendFields = [], NullFields = []\<rparr>"
  let ?s = "\<lparr>Fixed = 3, Percent = 0, ForceSendFields = [], NullFields = []\<rparr>"
  let ?u = "\<lparr>Fixed = 0, Percent = 20, ForceSendFields = [], NullFields = []\<rparr>"
  let ?up = "\<lparr>MinimalAction = ''REPLACE'', Type = ''PROACTIVE'', MaxSurge = Some ?s,
             MaxUnavailable = Some ?u, MinReadySec = 0\<rparr>"
  let ?version = "\<lparr>VersionName = ''v1'', InstanceTemplate = ''t1'', TargetSize = Some ?f\<rparr>"
  let ?ts = "VList [VMap [''percent'' \<mapsto> VInt64 50]]"
  let ?v = "VMap [''name'' \<mapsto> VString ''v1'', ''instance_template'' \<mapsto> VString ''t1'',
                  ''target_size'' \<mapsto> ?ts]"
  note t = flatten_fixed_percent_exclusive
    [of "Some ?f" ?ts ?f "\<lambda>s. s" "[?version]" "[?v]" ?v ?up ?s ?u]
  have h1: "flattenFixedOrPercent (Some ?f) = Inr ?ts" by (simp add: flattenFixedOrPercent_def)
  have h2: "0 < Percent ?f" by simp
  have h3: "flattenVersions (\<lambda>s. s) [?version] = Inr (VList [?v]) \<and> ?v \<in> set [?v]"
    by (simp add: flattenVersions_def flattenFixedOrPercent_def)
  have h4: "MaxSurge ?up = Some ?s" by simp
  have h5: "MaxUnavailable ?up = Some ?u" by simp
  note c1 = t [THEN conjunct1, THEN mp, OF h1]
  note c2 = t [THEN conjunct2, THEN conjunct1, THEN mp, OF h2]
  note c3 = t [THEN conjunct2, THEN conjunct2, THEN conjunct1, THEN mp, OF h3]
  note c4 = t [THEN conjunct2, THEN conjunct2, THEN conjunct2, THEN conjunct1, THEN mp, OF h4,
      THEN conjunct1]
  note c5 = t [THEN conjunct2, THEN conjunct2, THEN conjunct2, THEN conjunct2, THEN mp, OF h5,
      THEN conjunct2]
  have s1: "Percent ?f = 50" and s2: "Fixed ?s = 3" and s3: "Percent ?u = 20" by simp_all
  show ?thesis
    using c1 c2 [unfolded s1] c3 c4 [unfolded s2] c5 [unfolded s3] by (intro conjI)
qed

text \<open>
  The claim as it was stated fails for the update policy: a server value whose
  \<open>MaxSurge\<close> reports a fixed number and a percent is written back with both.
\<close>

theorem flattenUpdatePolicy_both_counterexample:
  "policyField (flattenUpdatePolicy (Some \<lparr>MinimalAction = ''REPLACE'', Type = ''PROACTIVE'',
       MaxSurge = Some \<lparr>Fixed = 3, Percent = 50, ForceSendFields = [], NullFields = []\<rparr>,
       MaxUnavailable = None, MinReadySec = 0\<rparr>)) ''max_surge_fixed'' = VInt64 3 \<and>
   policyField (flattenUpdatePolicy (Some \<lparr>MinimalAction = ''REPLACE'', Type = ''PROACTIVE'',
       MaxSurge = Some \<lparr>Fixed = 3, Percent = 50, ForceSendFields = [], NullFields = []\<rparr>,
       MaxUnavailable = None, MinReadySec = 0\<rparr>)) ''max_surge_percent'' = VInt64 50"
  by (simp add: flattenUpdatePolicy_def index_def)

section \<open>Properties of the read and of the import\<close>

lemma sample_parse_text:
  "parseInstanceGroupManagerId (\<lambda>s. s = ''my-project'') ''my-project/us-central1-a/igm-1''
     = Inr \<lparr>Project = ''my-project'', Zone = ''us-central1-a'', Name = ''igm-1''\<rparr>"
  by code_simp

lemma sample_parse:
  "parseInstanceGroupManagerId (ProjectRegex sampleHelpers) (d_Id (sampleData as changed))
     = Inr sampleId"
  by (simp add: sampleHelpers_def sampleData_def sampleId_def sample_parse_text)

lemma sample_parse_bare:
  "parseInstanceGroupManagerId (\<lambda>s. s = ''my-project'') ''igm-1''
     = Inr \<lparr>Project = [], Zone = [], Name = ''igm-1''\<rparr>"
  by code_simp

lemma getManager_calls:
  "x \<in> set (fst (getManager h w d)) \<Longrightarrow> isReadCall x \<and> x \<noteq> CallWaitForState"
  unfolding getManager_def Let_def
  by (auto split: sum.splits option.splits prod.splits if_splits)

lemma getManager_found:
  "getManager h w d = (t, d1, Inr (Some manager)) \<Longrightarrow> d1 = d"
  unfolding getManager_def Let_def
  by (auto split: sum.splits option.splits prod.splits if_splits)

lemma readWait_trace:
  "fst (readWait w t d) = t \<or> fst (readWait w t d) = t @ [CallWaitForState]"
  by (simp add: readWait_def split: sum.splits option.splits bool.splits)

lemma readWait_False:
  "d_Get d ''wait_for_instances'' = VBool False \<Longrightarrow> readWait w t d = (t, d, None)"
  by (simp add: readWait_def)

lemma d_Get_d_Set:
  "d_Get (d_Set d k v) k' = (if k' = k then storedValue k v else d_Get d k')"
  by (simp add: d_Get_def d_Set_def index_def)

lemma storedValue_flag [simp]: "storedValue ''wait_for_instances'' (VBool b) = VBool b"
  by (simp add: storedValue_def TypeSet_def)

text \<open>
  An \<open>int64\<close> written to \<open>target_size\<close> is read back as the \<open>int\<close> that the update and
  the delete assert, and a list written to \<open>named_port\<close> is read back as a set.
\<close>

lemma d_Set_target_size:
  "assertInt (d_Get (d_Set d ''target_size'' (VInt64 n)) ''target_size'') = Inr n"
  by (simp add: d_Get_def d_Set_def index_def storedValue_def TypeSet_def)

lemma d_Set_named_port:
  "assertSet (d_Get (d_Set d ''named_port'' (flattenNamedPortsBeta namedPorts)) ''named_port'')
     = Inr (map (\<lambda>namedPort.
              VMap [''name'' \<mapsto> VString (PortName namedPort),
                    ''port'' \<mapsto> VInt (Port namedPort)]) namedPorts)"
  by (simp add: d_Get_def d_Set_def index_def storedValue_def TypeSet_def
      flattenNamedPortsBeta_def fun_eq_iff)

lemma readManager_trace:
  "fst (readManager h w t d project manager) = t \<or>
   fst (readManager h w t d project manager) = t @ [CallWaitForState]"
  unfolding readManager_def Let_def
  using readWait_trace
  by (auto split: sum.splits option.splits)

lemma readManager_no_wait:
  assumes "d_Get d ''wait_for_instances'' = VBool False"
  shows "fst (readManager h w t d project manager) = t"
  unfolding readManager_def Let_def checkedSet_def
  using assms
  by (auto simp: d_Get_d_Set readWait_False split: sum.splits option.splits)

lemma Read_calls:
  "x \<in> set (fst (resourceComputeInstanceGroupManagerRead h w d)) \<Longrightarrow> isReadCall x"
proof -
  assume x: "x \<in> set (fst (resourceComputeInstanceGroupManagerRead h w d))"
  obtain t d1 r where g: "getManager h w d = (t, d1, r)" by (cases "getManager h w d") auto
  have t: "\<And>y. y \<in> set t \<Longrightarrow> isReadCall y" using getManager_calls [of _ h w d] g by simp
  obtain project e where p: "getProject h d = (project, e)" by (cases "getProject h d") auto
  show ?thesis
  proof (cases e)
    case (Some a)
    with x p show ?thesis by (simp add: resourceComputeInstanceGroupManagerRead_def)
  next
    case None
    show ?thesis
    proof (cases r)
      case (Inl f)
      with x p g None t show ?thesis by (simp add: resourceComputeInstanceGroupManagerRead_def)
    next
      case (Inr mo)
      show ?thesis
      proof (cases mo)
        case None
        with x p g \<open>e = None\<close> Inr t show ?thesis
          by (simp add: resourceComputeInstanceGroupManagerRead_def)
      next
        case (Some manager)
        with x p g \<open>e = None\<close> Inr
        have "x \<in> set (fst (readManager h w t d1 project manager))"
          by (simp add: resourceComputeInstanceGroupManagerRead_def)
        with readManager_trace [of h w t d1 project manager] t show ?thesis by auto
      qed
    qed
  qed
qed

lemma Read_no_wait:
  assumes "d_Get d ''wait_for_instances'' = VBool False"
  shows "CallWaitForState \<notin> set (fst (resourceComputeInstanceGroupManagerRead h w d))"
proof -
  obtain t d1 r where g: "getManager h w d = (t, d1, r)" by (cases "getManager h w d") auto
  have t: "CallWaitForState \<notin> set t" using getManager_calls [of CallWaitForState h w d] g by auto
  obtain project e where p: "getProject h d = (project, e)" by (cases "getProject h d") auto
  show ?thesis
  proof (cases e)
    case (Some a)
    with p show ?thesis by (simp add: resourceComputeInstanceGroupManagerRead_def)
  next
    case None
    show ?thesis
    proof (cases r)
      case (Inl f)
      with p g None t show ?thesis by (simp add: resourceComputeInstanceGroupManagerRead_def)
    next
      case (Inr mo)
      show ?thesis
      proof (cases mo)
        case None
        with p g \<open>e = None\<close> Inr t show ?thesis
          by (simp add: resourceComputeInstanceGroupManagerRead_def)
      next
        case (Some manager)
        with g Inr have "d1 = d" using getManager_found by simp
        with assms have "fst (readManager h w t d1 project manager) = t"
          by (simp add: readManager_no_wait)
        with p g \<open>e = None\<close> Inr Some t show ?thesis
          by (simp add: resourceComputeInstanceGroupManagerRead_def)
      qed
    qed
  qed
qed

text \<open>
  Claim C10. The importer sets \<open>wait_for_instances\<close> to false first, whatever the resource
  data held and whether or not the identifier is then accepted; on success it goes on to
  set project, zone and name. A read of the resource data the importer leaves never
  enters the wait for instances.
\<close>

theorem importer_clears_wait_for_instances:
  "d_Get (fst (resourceInstanceGroupManagerStateImporter h d)) ''wait_for_instances'' = VBool False \<and>
   (\<forall>e. snd (resourceInstanceGroupManagerStateImporter h d) = Inl e \<longrightarrow>
      fst (resourceInstanceGroupManagerStateImporter h d)
        = d_Set d ''wait_for_instances'' (VBool False)) \<and>
   (\<forall>ds. snd (resourceInstanceGroupManagerStateImporter h d) = Inr ds \<longrightarrow>
      (\<exists>zonalID. parseInstanceGroupManagerId (ProjectRegex h) (d_Id d) = Inr zonalID \<and>
         ds = [fst (resourceInstanceGroupManagerStateImporter h d)] \<and>
         fst (resourceInstanceGroupManagerStateImporter h d)
           = d_Set (d_Set (d_Set (d_Set d ''wait_for_instances'' (VBool False))
                 ''project'' (VString (Project zonalID)))
                 ''zone'' (VString (Zone zonalID)))
                 ''name'' (VString (Name zonalID)))) \<and>
   CallWaitForState \<notin>
     set (fst (resourceComputeInstanceGroupManagerRead h w
                 (fst (resourceInstanceGroupManagerStateImporter h d))))"
proof -
  have id: "d_Id (d_Set d ''wait_for_instances'' (VBool False)) = d_Id d" by (simp add: d_Set_def)
  have a: "d_Get (fst (resourceInstanceGroupManagerStateImporter h d)) ''wait_for_instances''
             = VBool False"
    unfolding resourceInstanceGroupManagerStateImporter_def Let_def
    by (simp add: d_Get_d_Set split: sum.splits)
  have b: "\<forall>e. snd (resourceInstanceGroupManagerStateImporter h d) = Inl e \<longrightarrow>
      fst (resourceInstanceGroupManagerStateImporter h d)
        = d_Set d ''wait_for_instances'' (VBool False)"
    unfolding resourceInstanceGroupManagerStateImporter_def Let_def
    by (simp split: sum.splits)
  have c: "\<forall>ds. snd (resourceInstanceGroupManagerStateImporter h d) = Inr ds \<longrightarrow>
      (\<exists>zonalID. parseInstanceGroupManagerId (ProjectRegex h) (d_Id d) = Inr zonalID \<and>
         ds = [fst (resourceInstanceGroupManagerStateImporter h d)] \<and>
         fst (resourceInstanceGroupManagerStateImporter h d)
           = d_Set (d_Set (d_Set (d_Set d ''wait_for_instances'' (VBool False))
                 ''project'' (VString (Project zonalID)))
                 ''zone'' (VString (Zone zonalID)))
                 ''name'' (VString (Name zonalID)))"
    unfolding resourceInstanceGroupManagerStateImporter_def Let_def id
    by (simp split: sum.splits)
  from a have "CallWaitForState \<notin>
     set (fst (resourceComputeInstanceGroupManagerRead h w
                 (fst (resourceInstanceGroupManagerStateImporter h d))))"
    by (rule Read_no_wait)
  with a b c show ?thesis by blast
qed

theorem importer_clears_wait_for_instances_witness:
  "d_Get (sampleData sampleAttrs (\<lambda>k. False)) ''wait_for_instances'' = VBool True \<and>
   d_Get (fst (resourceInstanceGroupManagerStateImporter sampleHelpers
                 (sampleData sampleAttrs (\<lambda>k. False)))) ''wait_for_instances'' = VBool False \<and>
   fst (resourceInstanceGroupManagerStateImporter sampleHelpers
          \<lparr>d_Id = ''igm-1'', attrs = sampleAttrs, HasChange = (\<lambda>k. False)\<rparr>)
     = d_Set \<lparr>d_Id = ''igm-1'', attrs = sampleAttrs, HasChange = (\<lambda>k. False)\<rparr>
         ''wait_for_instances'' (VBool False) \<and>
   (\<exists>zonalID.
      parseInstanceGroupManagerId (ProjectRegex sampleHelpers)
        (d_Id (sampleData sampleAttrs (\<lambda>k. False))) = Inr zonalID \<and>
      [fst (resourceInstanceGroupManagerStateImporter sampleHelpers
              (sampleData sampleAttrs (\<lambda>k. False)))]
        = [fst (resourceInstanceGroupManagerStateImporter sampleHelpers
              (sampleData sampleAttrs (\<lambda>k. False)))] \<and>
      fst (resourceInstanceGroupManagerStateImporter sampleHelpers
             (sampleData sampleAttrs (\<lambda>k. False)))
        = d_Set (d_Set (d_Set (d_Set (sampleData sampleAttrs (\<lambda>k. False))
              ''wait_for_instances'' (VBool False))
              ''project'' (VString (Project zonalID)))
              ''zone'' (VString (Zone zonalID)))
              ''name'' (VString (Name zonalID))) \<and>
   CallWaitForState \<notin>
     set (fst (resourceComputeInstanceGroupManagerRead sampleHelpers
                 (sampleWorld (\<lambda>i. Inl []) (\<lambda>n. None) (\<lambda>n. Inr 0))
                 (fst (resourceInstanceGroupManagerStateImporter sampleHelpers
                         (sampleData sampleAttrs (\<lambda>k. False))))))"
proof -
  let ?d = "sampleData sampleAttrs (\<lambda>k. False)"
  let ?bare = "\<lparr>d_Id = ''igm-1'', attrs = sampleAttrs, HasChange = (\<lambda>k. False)\<rparr>"
  let ?w = "sampleWorld (\<lambda>i. Inl []) (\<lambda>n. None) (\<lambda>n. Inr 0)"
  note t = importer_clears_wait_for_instances [of sampleHelpers ?d ?w]
  note t0 = importer_clears_wait_for_instances [of sampleHelpers ?bare ?w]
  have g: "d_Get ?d ''wait_for_instances'' = VBool True"
    by (simp add: d_Get_def index_def sampleData_def sampleAttrs_def)
  have r: "snd (resourceInstanceGroupManagerStateImporter sampleHelpers ?d)
             = Inr [fst (resourceInstanceGroupManagerStateImporter sampleHelpers ?d)]"
    using sample_parse [of sampleAttrs "\<lambda>k. False"]
    by (simp add: resourceInstanceGroupManagerStateImporter_def Let_def d_Set_def sampleId_def)
  have r0: "snd (resourceInstanceGroupManagerStateImporter sampleHelpers ?bare)
              = Inl (Errorf invalidImportId)"
    using sample_parse_bare
    by (simp add: resourceInstanceGroupManagerStateImporter_def Let_def d_Set_def
        sampleHelpers_def)
  note a = t [THEN conjunct1]
  note b = t0 [THEN conjunct2, THEN conjunct1, THEN spec, THEN mp, OF r0]
  note c = t [THEN conjunct2, THEN conjunct2, THEN conjunct1, THEN spec, THEN mp, OF r]
  note e = t [THEN conjunct2, THEN conjunct2, THEN conjunct2]
  show ?thesis using g a b c e by (intro conjI)
qed

section \<open>Properties of the update\<close>

lemma patchStep_calls:
  "x \<in> set (fst (patchStep w d project zone m change)) \<Longrightarrow>
   change \<and> (isPatch x \<longrightarrow> (\<exists>name. x = CallPatch project zone name m)) \<and>
   \<not> isSetNamedPorts x \<and> \<not> isResize x"
  unfolding patchStep_def
  by (auto split: if_splits sum.splits option.splits)

lemma namedPortStep_calls:
  "x \<in> set (fst (namedPortStep w d project zone)) \<Longrightarrow>
   HasChange d ''named_port'' \<and> \<not> isPatch x \<and> \<not> isResize x"
  unfolding namedPortStep_def
  by (auto split: if_splits sum.splits option.splits)

lemma resizeStep_calls:
  "x \<in> set (fst (resizeStep w d project zone)) \<Longrightarrow>
   HasChange d ''target_size'' \<and> \<not> isPatch x \<and> \<not> isSetNamedPorts x"
  unfolding resizeStep_def
  by (auto split: if_splits sum.splits option.splits)

lemma Read_calls_not:
  "x \<in> set (fst (resourceComputeInstanceGroupManagerRead h w d)) \<Longrightarrow>
   \<not> isPatch x \<and> \<not> isSetNamedPorts x \<and> \<not> isResize x"
  using Read_calls [of x h w d] by (cases x) auto

text \<open>The trace of an update, step by step.\<close>

lemma Update_calls:
  assumes "x \<in> set (fst (resourceComputeInstanceGroupManagerUpdate h w d))"
  shows "\<exists>project zone m change.
           getProject h d = (project, None) \<and> getZone h d = (zone, None) \<and>
           buildUpdatedManager h d = Inr (m, change) \<and>
           (x \<in> set (fst (patchStep w d project zone m change)) \<or>
            x \<in> set (fst (namedPortStep w d project zone)) \<or>
            x \<in> set (fst (resizeStep w d project zone)) \<or>
            x \<in> set (fst (resourceComputeInstanceGroupManagerRead h w d)))"
  using assms
  unfolding resourceComputeInstanceGroupManagerUpdate_def
  by (auto split: prod.splits option.splits sum.splits)

text \<open>What a type assertion that succeeded says of the value.\<close>

lemma assertString_Inr: "assertString v = Inr s \<longleftrightarrow> v = VString s"
  by (cases v) (simp_all add: conversionPanic_def)

lemma assertInt_Inr: "assertInt v = Inr n \<longleftrightarrow> v = VInt n"
  by (cases v) (simp_all add: conversionPanic_def)

lemma assertList_Inr: "assertList v = Inr xs \<longleftrightarrow> v = VList xs"
  by (cases v) (simp_all add: conversionPanic_def)

lemma assertSet_Inr: "assertSet v = Inr xs \<longleftrightarrow> v = VSet xs"
  by (cases v) (simp_all add: conversionPanic_def)

lemma assertMap_Inr: "assertMap v = Inr m \<longleftrightarrow> v = VMap m"
  by (cases v) (simp_all add: conversionPanic_def)

text \<open>
  What the expanders put into the request: one structure for each configured block, in
  the order of the blocks, with the values of the block.
\<close>

lemma expandAutoHealingPolicies_items:
  "expandAutoHealingPolicies configured = Inr policies \<Longrightarrow>
   list_all2 (\<lambda>raw policy. \<exists>data.
       raw = VMap data \<and>
       index data ''health_check'' = VString (HealthCheck policy) \<and>
       index data ''initial_delay_sec'' = VInt (InitialDelaySec policy))
     configured policies"
proof (induction configured arbitrary: policies)
  case Nil
  then show ?case by simp
next
  case (Cons raw rest)
  from Cons.prems obtain data healthCheck initialDelaySec others where
    "assertMap raw = Inr data"
    "assertString (index data ''health_check'') = Inr healthCheck"
    "assertInt (index data ''initial_delay_sec'') = Inr initialDelaySec"
    "expandAutoHealingPolicies rest = Inr others"
    "policies = \<lparr>HealthCheck = healthCheck, InitialDelaySec = initialDelaySec\<rparr> # others"
    by (auto split: sum.splits)
  with Cons.IH [of others] show ?case
    by (simp add: assertMap_Inr assertString_Inr assertInt_Inr)
qed

lemma expandVersions_items:
  "expandVersions configured = Inr versions \<Longrightarrow>
   list_all2 (\<lambda>raw version. \<exists>data blocks targetSize.
       raw = VMap data \<and>
       index data ''name'' = VString (VersionName version) \<and>
       index data ''instance_template'' = VString (InstanceTemplate version) \<and>
       index data ''target_size'' = VList blocks \<and>
       expandFixedOrPercent blocks = Inr targetSize \<and>
       TargetSize version = Some targetSize)
     configured versions"
proof (induction configured arbitrary: versions)
  case Nil
  then show ?case by simp
next
  case (Cons raw rest)
  from Cons.prems obtain data name instanceTemplate blocks targetSize others where
    "assertMap raw = Inr data"
    "assertString (index data ''name'') = Inr name"
    "assertString (index data ''instance_template'') = Inr instanceTemplate"
    "assertList (index data ''target_size'') = Inr blocks"
    "expandFixedOrPercent blocks = Inr targetSize"
    "expandVersions rest = Inr others"
    "versions = \<lparr>VersionName = name, InstanceTemplate = instanceTemplate,
                  TargetSize = Some targetSize\<rparr> # others"
    by (auto split: sum.splits)
  with Cons.IH [of others] show ?case
    by (simp add: assertMap_Inr assertString_Inr assertList_Inr)
qed

lemma expandPercentOrFixed_value:
  "expandPercentOrFixed data percentKey fixedKey = Inr fixedOrPercent \<Longrightarrow>
   \<exists>percent. index data percentKey = VInt percent \<and>
     (if percent > 0
      then fixedOrPercent =
             \<lparr>Fixed = 0, Percent = percent, ForceSendFields = [], NullFields = [''Fixed'']\<rparr>
      else \<exists>fixed. index data fixedKey = VInt fixed \<and>
             fixedOrPercent =
               \<lparr>Fixed = fixed, Percent = 0, ForceSendFields = [''Fixed''],
                NullFields = [''Percent'']\<rparr>)"
  unfolding expandPercentOrFixed_def
  by (auto simp: assertInt_Inr split: sum.splits if_splits)

lemma expandUpdatePolicy_block:
  "expandUpdatePolicy [raw] = Inr updatePolicy \<Longrightarrow>
   \<exists>data maxSurge maxUnavailable.
     raw = VMap data \<and>
     index data ''minimal_action'' = VString (MinimalAction updatePolicy) \<and>
     index data ''type'' = VString (Type updatePolicy) \<and>
     expandPercentOrFixed data ''max_surge_percent'' ''max_surge_fixed'' = Inr maxSurge \<and>
     MaxSurge updatePolicy = Some maxSurge \<and>
     expandPercentOrFixed data ''max_unavailable_percent'' ''max_unavailable_fixed''
       = Inr maxUnavailable \<and>
     MaxUnavailable updatePolicy = Some maxUnavailable \<and>
     (case data ''min_ready_sec'' of
        None \<Rightarrow> MinReadySec updatePolicy = 0
      | Some v \<Rightarrow> v = VInt (MinReadySec updatePolicy))"
  unfolding expandUpdatePolicy_def
  by (auto simp: assertMap_Inr assertString_Inr assertInt_Inr emptyUpdatePolicy_def
      split: sum.splits option.splits)

lemma expandUpdatePolicy_none: "expandUpdatePolicy [] = Inr emptyUpdatePolicy"
  by (simp add: expandUpdatePolicy_def)

text \<open>Each of the four \<open>if d.HasChange(...)\<close> blocks, with the value it assigns.\<close>

lemma patchTargetPools_fields:
  "patchTargetPools h d (m, c) = Inr (m1, c1) \<Longrightarrow>
   c1 = (c \<or> HasChange d ''target_pools'') \<and>
   (if HasChange d ''target_pools''
    then \<exists>configured pools.
           d_Get d ''target_pools'' = VSet configured \<and>
           convertStringSet h configured = Inr pools \<and>
           m1 = m\<lparr>TargetPools := Some pools\<rparr>
    else m1 = m)"
  unfolding patchTargetPools_def
  by (auto simp: assertSet_Inr split: if_splits sum.splits)

lemma patchAutoHealingPolicies_fields:
  "patchAutoHealingPolicies d (m, c) = Inr (m1, c1) \<Longrightarrow>
   c1 = (c \<or> HasChange d ''auto_healing_policies'') \<and>
   (if HasChange d ''auto_healing_policies''
    then \<exists>configured policies.
           d_Get d ''auto_healing_policies'' = VList configured \<and>
           expandAutoHealingPolicies configured = Inr policies \<and>
           m1 = m\<lparr>AutoHealingPolicies := Some policies,
            ManagerForceSendFields := ManagerForceSendFields m @ [''AutoHealingPolicies'']\<rparr>
    else m1 = m)"
  unfolding patchAutoHealingPolicies_def
  by (auto simp: assertList_Inr split: if_splits sum.splits)

lemma patchVersions_fields:
  "patchVersions d (m, c) = Inr (m1, c1) \<Longrightarrow>
   c1 = (c \<or> HasChange d ''version'') \<and>
   (if HasChange d ''version''
    then \<exists>configured versions.
           d_Get d ''version'' = VList configured \<and>
           expandVersions configured = Inr versions \<and>
           m1 = m\<lparr>Versions := Some versions\<rparr>
    else m1 = m)"
  unfolding patchVersions_def
  by (auto simp: assertList_Inr split: if_splits sum.splits)

lemma patchUpdatePolicy_fields:
  "patchUpdatePolicy d (m, c) = Inr (m1, c1) \<Longrightarrow>
   c1 = (c \<or> HasChange d ''update_policy'') \<and>
   (if HasChange d ''update_policy''
    then \<exists>configured updatePolicy.
           d_Get d ''update_policy'' = VList configured \<and>
           expandUpdatePolicy configured = Inr updatePolicy \<and>
           m1 = m\<lparr>UpdatePolicy := Some updatePolicy\<rparr>
    else m1 = m)"
  unfolding patchUpdatePolicy_def
  by (auto simp: assertList_Inr split: if_splits sum.splits)

text \<open>
  The request as it stands before \<open>if change\<close>: the stored fingerprint, each of the four
  fields assigned when and only when its key changed, with the value converted from the
  configuration, nothing else but the forced-field entry of the auto-healing policies.
\<close>

lemma buildUpdatedManager_fields:
  assumes "buildUpdatedManager h d = Inr (m, change)"
  shows "d_Get d ''fingerprint'' = VString (Fingerprint m) \<and>
         (if HasChange d ''target_pools''
          then \<exists>configured pools.
                 d_Get d ''target_pools'' = VSet configured \<and>
                 convertStringSet h configured = Inr pools \<and> TargetPools m = Some pools
          else TargetPools m = None) \<and>
         (if HasChange d ''auto_healing_policies''
          then \<exists>configured policies.
                 d_Get d ''auto_healing_policies'' = VList configured \<and>
                 expandAutoHealingPolicies configured = Inr policies \<and>
                 AutoHealingPolicies m = Some policies
          else AutoHealingPolicies m = None) \<and>
         (if HasChange d ''version''
          then \<exists>configured versions.
                 d_Get d ''version'' = VList configured \<and>
                 expandVersions configured = Inr versions \<and> Versions m = Some versions
          else Versions m = None) \<and>
         (if HasChange d ''update_policy''
          then \<exists>configured updatePolicy.
                 d_Get d ''update_policy'' = VList configured \<and>
                 expandUpdatePolicy configured = Inr updatePolicy \<and>
                 UpdatePolicy m = Some updatePolicy
          else UpdatePolicy m = None) \<and>
         otherFields m = emptyManager\<lparr>Fingerprint := Fingerprint m\<rparr> \<and>
         ManagerForceSendFields m =
           (if HasChange d ''auto_healing_policies'' then [''AutoHealingPolicies''] else []) \<and>
         change = (HasChange d ''target_pools'' \<or> HasChange d ''auto_healing_policies'' \<or>
                   HasChange d ''version'' \<or> HasChange d ''update_policy'')"
proof -
  from assms obtain fp mc1 mc2 mc3 where
    fp: "assertString (d_Get d ''fingerprint'') = Inr fp" and
    s1: "patchTargetPools h d (emptyManager\<lparr>Fingerprint := fp\<rparr>, False) = Inr mc1" and
    s2: "patchAutoHealingPolicies d mc1 = Inr mc2" and
    s3: "patchVersions d mc2 = Inr mc3" and
    s4: "patchUpdatePolicy d mc3 = Inr (m, change)"
    unfolding buildUpdatedManager_def by (auto split: sum.splits)
  from fp have g: "d_Get d ''fingerprint'' = VString fp"
    by (simp add: assertString_Inr)
  obtain m1 c1 where mc1: "mc1 = (m1, c1)" by (cases mc1)
  obtain m2 c2 where mc2: "mc2 = (m2, c2)" by (cases mc2)
  obtain m3 c3 where mc3: "mc3 = (m3, c3)" by (cases mc3)
  note f1 = patchTargetPools_fields [OF s1 [unfolded mc1]]
  note f2 = patchAutoHealingPolicies_fields [OF s2 [unfolded mc1 mc2]]
  note f3 = patchVersions_fields [OF s3 [unfolded mc2 mc3]]
  note f4 = patchUpdatePolicy_fields [OF s4 [unfolded mc3]]
  have e1: "AutoHealingPolicies m1 = None \<and> Versions m1 = None \<and> UpdatePolicy m1 = None \<and>
            Fingerprint m1 = fp \<and> otherFields m1 = emptyManager\<lparr>Fingerprint := fp\<rparr> \<and>
            ManagerForceSendFields m1 = []"
    using f1 by (auto simp: emptyManager_def otherFields_def split: if_splits)
  have p1: "if HasChange d ''target_pools''
            then \<exists>configured pools.
                   d_Get d ''target_pools'' = VSet configured \<and>
                   convertStringSet h configured = Inr pools \<and> TargetPools m1 = Some pools
            else TargetPools m1 = None"
    using f1 by (auto simp: emptyManager_def split: if_splits)
  have e2: "TargetPools m2 = TargetPools m1 \<and>
            Versions m2 = None \<and> UpdatePolicy m2 = None \<and>
            Fingerprint m2 = fp \<and> otherFields m2 = emptyManager\<lparr>Fingerprint := fp\<rparr> \<and>
            ManagerForceSendFields m2 =
              (if HasChange d ''auto_healing_policies'' then [''AutoHealingPolicies''] else [])"
    using f2 e1 by (auto simp: otherFields_def split: if_splits)
  have p2: "if HasChange d ''auto_healing_policies''
            then \<exists>configured policies.
                   d_Get d ''auto_healing_policies'' = VList configured \<and>
                   expandAutoHealingPolicies configured = Inr policies \<and>
                   AutoHealingPolicies m2 = Some policies
            else AutoHealingPolicies m2 = None"
    using f2 e1 by (auto split: if_splits)
  have e3: "TargetPools m3 = TargetPools m1 \<and> AutoHealingPolicies m3 = AutoHealingPolicies m2 \<and>
            UpdatePolicy m3 = None \<and>
            Fingerprint m3 = fp \<and> otherFields m3 = emptyManager\<lparr>Fingerprint := fp\<rparr> \<and>
            ManagerForceSendFields m3 = ManagerForceSendFields m2"
    using f3 e2 by (auto simp: otherFields_def split: if_splits)
  have p3: "if HasChange d ''version''
            then \<exists>configured versions.
                   d_Get d ''version'' = VList configured \<and>
                   expandVersions configured = Inr versions \<and> Versions m3 = Some versions
            else Versions m3 = None"
    using f3 e2 by (auto split: if_splits)
  have e4: "TargetPools m = TargetPools m1 \<and> AutoHealingPolicies m = AutoHealingPolicies m2 \<and>
            Versions m = Versions m3 \<and>
            Fingerprint m = fp \<and> otherFields m = emptyManager\<lparr>Fingerprint := fp\<rparr> \<and>
            ManagerForceSendFields m = ManagerForceSendFields m2"
    using f4 e3 by (auto simp: otherFields_def split: if_splits)
  have p4: "if HasChange d ''update_policy''
            then \<exists>configured updatePolicy.
                   d_Get d ''update_policy'' = VList configured \<and>
                   expandUpdatePolicy configured = Inr updatePolicy \<and>
                   UpdatePolicy m = Some updatePolicy
            else UpdatePolicy m = None"
    using f4 e3 by (auto split: if_splits)
  have c: "change = (HasChange d ''target_pools'' \<or> HasChange d ''auto_healing_policies'' \<or>
                   HasChange d ''version'' \<or> HasChange d ''update_policy'')"
    using f1 f2 f3 f4 by auto
  from e4 g have q0: "d_Get d ''fingerprint'' = VString (Fingerprint m)" by simp
  from e4 p1 have q1: "if HasChange d ''target_pools''
          then \<exists>configured pools.
                 d_Get d ''target_pools'' = VSet configured \<and>
                 convertStringSet h configured = Inr pools \<and> TargetPools m = Some pools
          else TargetPools m = None"
    by (auto split: if_splits)
  from e4 p2 have q2: "if HasChange d ''auto_healing_policies''
          then \<exists>configured policies.
                 d_Get d ''auto_healing_policies'' = VList configured \<and>
                 expandAutoHealingPolicies configured = Inr policies \<and>
                 AutoHealingPolicies m = Some policies
          else AutoHealingPolicies m = None"
    by (auto split: if_splits)
  from e4 p3 have q3: "if HasChange d ''version''
          then \<exists>configured versions.
                 d_Get d ''version'' = VList configured \<and>
                 expandVersions configured = Inr versions \<and> Versions m = Some versions
          else Versions m = None"
    by (auto split: if_splits)
  from e4 have q5: "otherFields m = emptyManager\<lparr>Fingerprint := Fingerprint m\<rparr>" by simp
  from e4 e2 have q6: "ManagerForceSendFields m =
           (if HasChange d ''auto_healing_policies'' then [''AutoHealingPolicies''] else [])"
    by simp
  from q0 q1 q2 q3 p4 q5 q6 c show ?thesis by (intro conjI)
qed

lemma buildUpdatedManager_change:
  "buildUpdatedManager h d = Inr (m, change) \<Longrightarrow>
   change = (HasChange d ''target_pools'' \<or> HasChange d ''auto_healing_policies'' \<or>
             HasChange d ''version'' \<or> HasChange d ''update_policy'')"
  using buildUpdatedManager_fields [of h d m change] by blast

lemma buildUpdatedManager_unchanged:
  "d_Get d ''fingerprint'' = VString fp \<Longrightarrow>
   \<not> HasChange d ''target_pools'' \<Longrightarrow> \<not> HasChange d ''auto_healing_policies'' \<Longrightarrow>
   \<not> HasChange d ''version'' \<Longrightarrow> \<not> HasChange d ''update_policy'' \<Longrightarrow>
   buildUpdatedManager h d = Inr (emptyManager\<lparr>Fingerprint := fp\<rparr>, False)"
  by (simp add: buildUpdatedManager_def patchTargetPools_def patchAutoHealingPolicies_def
      patchVersions_def patchUpdatePolicy_def)

lemma patchStep_unchanged: "patchStep w d project zone m False = ([], None)"
  by (simp add: patchStep_def)

lemma patchStep_head:
  "d_Get d ''name'' = VString name \<Longrightarrow>
   \<exists>rest. fst (patchStep w d project zone m True) = CallPatch project zone name m # rest"
  by (simp add: patchStep_def split: sum.splits option.splits)

lemma namedPortStep_unchanged:
  "\<not> HasChange d ''named_port'' \<Longrightarrow> namedPortStep w d project zone = ([], None)"
  by (simp add: namedPortStep_def)

lemma namedPortStep_head:
  "HasChange d ''named_port'' \<Longrightarrow> d_Get d ''named_port'' = VSet nps \<Longrightarrow>
   getNamedPortsBeta nps = Inr namedPorts \<Longrightarrow> d_Get d ''name'' = VString name \<Longrightarrow>
   \<exists>rest. fst (namedPortStep w d project zone)
            = CallSetNamedPorts project zone name namedPorts # rest"
  by (simp add: namedPortStep_def split: sum.splits option.splits)

lemma resizeStep_head:
  "HasChange d ''target_size'' \<Longrightarrow> d_Get d ''target_size'' = VInt targetSize \<Longrightarrow>
   d_Get d ''name'' = VString name \<Longrightarrow>
   \<exists>rest. fst (resizeStep w d project zone) = CallResize project zone name targetSize # rest"
  by (simp add: resizeStep_def split: sum.splits option.splits)

lemma Update_prefix:
  assumes "getProject h d = (project, None)" "getZone h d = (zone, None)"
    "buildUpdatedManager h d = Inr (m, change)"
  shows "\<exists>rest. fst (resourceComputeInstanceGroupManagerUpdate h w d)
                  = fst (patchStep w d project zone m change) @ rest"
  using assms unfolding resourceComputeInstanceGroupManagerUpdate_def
  by (auto split: prod.splits option.splits)

lemma Update_prefix_namedPort:
  assumes "getProject h d = (project, None)" "getZone h d = (zone, None)"
    "buildUpdatedManager h d = Inr (m, change)"
    "patchStep w d project zone m change = ([], None)"
  shows "\<exists>rest. fst (resourceComputeInstanceGroupManagerUpdate h w d)
                  = fst (namedPortStep w d project zone) @ rest"
  using assms unfolding resourceComputeInstanceGroupManagerUpdate_def
  by (auto split: prod.splits option.splits)

lemma Update_prefix_resize:
  assumes "getProject h d = (project, None)" "getZone h d = (zone, None)"
    "buildUpdatedManager h d = Inr (m, change)"
    "patchStep w d project zone m change = ([], None)"
    "namedPortStep w d project zone = ([], None)"
  shows "\<exists>rest. fst (resourceComputeInstanceGroupManagerUpdate h w d)
                  = fst (resizeStep w d project zone) @ rest"
  using assms unfolding resourceComputeInstanceGroupManagerUpdate_def
  by (auto split: prod.splits option.splits)

lemma Update_patch_is_built:
  assumes "CallPatch project zone name body \<in> set (fst (resourceComputeInstanceGroupManagerUpdate h w d))"
  shows "buildUpdatedManager h d = Inr (body, True)"
proof -
  let ?x = "CallPatch project zone name body"
  from Update_calls [OF assms] obtain project1 zone1 m change where
    b: "buildUpdatedManager h d = Inr (m, change)" and
    x: "?x \<in> set (fst (patchStep w d project1 zone1 m change)) \<or>
        ?x \<in> set (fst (namedPortStep w d project1 zone1)) \<or>
        ?x \<in> set (fst (resizeStep w d project1 zone1)) \<or>
        ?x \<in> set (fst (resourceComputeInstanceGroupManagerRead h w d))"
    by blast
  have p: "isPatch ?x" by simp
  from x p have "?x \<in> set (fst (patchStep w d project1 zone1 m change))"
    using namedPortStep_calls [of ?x w d project1 zone1]
      resizeStep_calls [of ?x w d project1 zone1] Read_calls_not [of ?x h w d]
    by blast
  from patchStep_calls [OF this] p have "change" and "m = body" by auto
  with b show ?thesis by simp
qed

lemma Update_no_patch:
  assumes "\<not> HasChange d ''target_pools''" "\<not> HasChange d ''auto_healing_policies''"
    "\<not> HasChange d ''version''" "\<not> HasChange d ''update_policy''"
    "x \<in> set (fst (resourceComputeInstanceGroupManagerUpdate h w d))"
  shows "\<not> isPatch x"
proof
  assume p: "isPatch x"
  from Update_calls [OF assms(5)] obtain project1 zone1 m change where
    b: "buildUpdatedManager h d = Inr (m, change)" and
    x: "x \<in> set (fst (patchStep w d project1 zone1 m change)) \<or>
        x \<in> set (fst (namedPortStep w d project1 zone1)) \<or>
        x \<in> set (fst (resizeStep w d project1 zone1)) \<or>
        x \<in> set (fst (resourceComputeInstanceGroupManagerRead h w d))"
    by blast
  from x p have "x \<in> set (fst (patchStep w d project1 zone1 m change))"
    using namedPortStep_calls [of x w d project1 zone1]
      resizeStep_calls [of x w d project1 zone1] Read_calls_not [of x h w d]
    by blast
  from patchStep_calls [OF this] have "change" by simp
  with buildUpdatedManager_change [OF b] assms(1-4) show False by simp
qed

lemma Update_patch_head:
  assumes "getProject h d = (project, None)" "getZone h d = (zone, None)"
    "buildUpdatedManager h d = Inr (m, True)" "d_Get d ''name'' = VString name"
  shows "\<exists>rest. fst (resourceComputeInstanceGroupManagerUpdate h w d)
                  = CallPatch project zone name m # rest"
proof -
  from assms(4) patchStep_head obtain r1 where
    r1: "fst (patchStep w d project zone m True) = CallPatch project zone name m # r1"
    by blast
  from Update_prefix [OF assms(1,2,3)] obtain r2 where
    "fst (resourceComputeInstanceGroupManagerUpdate h w d)
       = fst (patchStep w d project zone m True) @ r2"
    by blast
  with r1 show ?thesis by simp
qed

text \<open>
  Every patch request an update issues is the request built from the changed keys: it
  carries the stored fingerprint, each of the four fields is assigned when and only when
  its key changed and then holds the value converted from the configuration, and nothing
  else is put into the request but the forced-field entry of the auto-healing policies.
  No patch request is issued when none of the four keys changed.
\<close>

lemma Update_patch_request:
  assumes "CallPatch project zone name body
             \<in> set (fst (resourceComputeInstanceGroupManagerUpdate h w d))"
  shows "d_Get d ''fingerprint'' = VString (Fingerprint body) \<and>
         (if HasChange d ''target_pools''
          then \<exists>configured pools.
                 d_Get d ''target_pools'' = VSet configured \<and>
                 convertStringSet h configured = Inr pools \<and> TargetPools body = Some pools
          else TargetPools body = None) \<and>
         (if HasChange d ''auto_healing_policies''
          then \<exists>configured policies.
                 d_Get d ''auto_healing_policies'' = VList configured \<and>
                 expandAutoHealingPolicies configured = Inr policies \<and>
                 AutoHealingPolicies body = Some policies
          else AutoHealingPolicies body = None) \<and>
         (if HasChange d ''version''
          then \<exists>configured versions.
                 d_Get d ''version'' = VList configured \<and>
                 expandVersions configured = Inr versions \<and> Versions body = Some versions
          else Versions body = None) \<and>
         (if HasChange d ''update_policy''
          then \<exists>configured updatePolicy.
                 d_Get d ''update_policy'' = VList configured \<and>
                 expandUpdatePolicy configured = Inr updatePolicy \<and>
                 UpdatePolicy body = Some updatePolicy
          else UpdatePolicy body = None) \<and>
         otherFields body = emptyManager\<lparr>Fingerprint := Fingerprint body\<rparr> \<and>
         ManagerForceSendFields body =
           (if HasChange d ''auto_healing_policies'' then [''AutoHealingPolicies''] else [])"
  using buildUpdatedManager_fields [OF Update_patch_is_built [OF assms]] by blast

text \<open>
  The requests of four updates of the stored resource \<open>igm-1\<close>, each with one changed key:
  the pools \<open>pool-b\<close> and \<open>pool-c\<close>, one auto-healing policy, one version whose target size
  is 25 percent, and one update policy with a surge of 3 instances and 20 percent
  unavailable.
\<close>

lemma Update_target_pools_request:
  "\<exists>rest. fst (resourceComputeInstanceGroupManagerUpdate sampleHelpers
                 (sampleWorld (\<lambda>i. Inl []) (\<lambda>n. None) (\<lambda>n. Inr 0))
                 (sampleData
                    (sampleAttrs(''target_pools'' \<mapsto> VSet [VString ''pool-b'', VString ''pool-c'']))
                    (\<lambda>k. k = ''target_pools'')))
           = CallPatch ''my-project'' ''us-central1-a'' ''igm-1''
               (emptyManager\<lparr>Fingerprint := ''abc'',
                              TargetPools := Some [''pool-b'', ''pool-c'']\<rparr>) # rest"
  by (rule Update_patch_head)
    (simp_all add: buildUpdatedManager_def patchTargetPools_def patchAutoHealingPolicies_def
      patchVersions_def patchUpdatePolicy_def d_Get_def index_def sampleData_def
      sampleAttrs_def sampleHelpers_def)

lemma Update_auto_healing_policies_request:
  "\<exists>rest. fst (resourceComputeInstanceGroupManagerUpdate sampleHelpers
                 (sampleWorld (\<lambda>i. Inl []) (\<lambda>n. None) (\<lambda>n. Inr 0))
                 (sampleData
                    (sampleAttrs(''auto_healing_policies'' \<mapsto>
                       VList [VMap [''health_check'' \<mapsto> VString ''check-1'',
                                    ''initial_delay_sec'' \<mapsto> VInt 300]]))
                    (\<lambda>k. k = ''auto_healing_policies'')))
           = CallPatch ''my-project'' ''us-central1-a'' ''igm-1''
               (emptyManager\<lparr>Fingerprint := ''abc'',
                   AutoHealingPolicies :=
                     Some [\<lparr>HealthCheck = ''check-1'', InitialDelaySec = 300\<rparr>],
                   ManagerForceSendFields := [''AutoHealingPolicies'']\<rparr>) # rest"
  by (rule Update_patch_head)
    (simp_all add: buildUpdatedManager_def patchTargetPools_def patchAutoHealingPolicies_def
      patchVersions_def patchUpdatePolicy_def d_Get_def index_def sampleData_def
      sampleAttrs_def sampleHelpers_def emptyManager_def)

lemma Update_version_request:
  "\<exists>rest. fst (resourceComputeInstanceGroupManagerUpdate sampleHelpers
                 (sampleWorld (\<lambda>i. Inl []) (\<lambda>n. None) (\<lambda>n. Inr 0))
                 (sampleData
                    (sampleAttrs(''version'' \<mapsto>
                       VList [VMap [''name'' \<mapsto> VString ''canary'',
                                    ''instance_template'' \<mapsto> VString ''template-2'',
                                    ''target_size'' \<mapsto>
                                       VList [VMap [''fixed'' \<mapsto> VInt 0,
                                                    ''percent'' \<mapsto> VInt 25]]]]))
                    (\<lambda>k. k = ''version'')))
           = CallPatch ''my-project'' ''us-central1-a'' ''igm-1''
               (emptyManager\<lparr>Fingerprint := ''abc'',
                   Versions :=
                     Some [\<lparr>VersionName = ''canary'', InstanceTemplate = ''template-2'',
                            TargetSize = Some \<lparr>Fixed = 0, Percent = 25, ForceSendFields = [],
                                               NullFields = []\<rparr>\<rparr>]\<rparr>) # rest"
  by (rule Update_patch_head)
    (simp_all add: buildUpdatedManager_def patchTargetPools_def patchAutoHealingPolicies_def
      patchVersions_def patchUpdatePolicy_def d_Get_def index_def sampleData_def
      sampleAttrs_def sampleHelpers_def expandFixedOrPercent_def emptyFixedOrPercent_def)

lemma Update_update_policy_request:
  "\<exists>rest. fst (resourceComputeInstanceGroupManagerUpdate sampleHelpers
                 (sampleWorld (\<lambda>i. Inl []) (\<lambda>n. None) (\<lambda>n. Inr 0))
                 (sampleData
                    (sampleAttrs(''update_policy'' \<mapsto>
                       VList [VMap [''minimal_action'' \<mapsto> VString ''REPLACE'',
                                    ''type'' \<mapsto> VString ''PROACTIVE'',
                                    ''max_surge_fixed'' \<mapsto> VInt 3,
                                    ''max_surge_percent'' \<mapsto> VInt 0,
                                    ''max_unavailable_fixed'' \<mapsto> VInt 0,
                                    ''max_unavailable_percent'' \<mapsto> VInt 20,
                                    ''min_ready_sec'' \<mapsto> VInt 60]]))
                    (\<lambda>k. k = ''update_policy'')))
           = CallPatch ''my-project'' ''us-central1-a'' ''igm-1''
               (emptyManager\<lparr>Fingerprint := ''abc'',
                   UpdatePolicy :=
                     Some \<lparr>MinimalAction = ''REPLACE'', Type = ''PROACTIVE'',
                           MaxSurge = Some \<lparr>Fixed = 3, Percent = 0,
                                             ForceSendFields = [''Fixed''],
                                             NullFields = [''Percent'']\<rparr>,
                           MaxUnavailable = Some \<lparr>Fixed = 0, Percent = 20,
                                                   ForceSendFields = [],
                                                   NullFields = [''Fixed'']\<rparr>,
                           MinReadySec = 60\<rparr>\<rparr>) # rest"
  by (rule Update_patch_head)
    (simp_all add: buildUpdatedManager_def patchTargetPools_def patchAutoHealingPolicies_def
      patchVersions_def patchUpdatePolicy_def d_Get_def index_def sampleData_def
      sampleAttrs_def sampleHelpers_def expandUpdatePolicy_def emptyUpdatePolicy_def
      expandPercentOrFixed_def)

text \<open>
  Claim C5. The patch request of an update carries the stored fingerprint and contains
  exactly the changed fields among \<open>target_pools\<close>, \<open>auto_healing_policies\<close>, \<open>version\<close> and
  \<open>update_policy\<close>, and no patch request is issued when none of the four changed. The
  code does not keep this for target pools that were all removed. With \<open>target_pools\<close>
  the only changed key and its new value the empty set, the request the update issues
  holds an empty list of pools and names no forced field; an empty value that is not
  forced is left out of what is sent, which is why the code forces the target size of a
  new manager and the auto-healing policies of an update. The update of the auto-healing
  policies to the empty list, next to it in the code, does name its field among the
  forced fields of the request.
\<close>

theorem update_emptied_target_pools_not_forced:
  "(\<exists>rest. fst (resourceComputeInstanceGroupManagerUpdate sampleHelpers
                  (sampleWorld (\<lambda>i. Inl []) (\<lambda>n. None) (\<lambda>n. Inr 0))
                  (sampleData (sampleAttrs(''target_pools'' \<mapsto> VSet []))
                     (\<lambda>k. k = ''target_pools'')))
            = CallPatch ''my-project'' ''us-central1-a'' ''igm-1''
                (emptyManager\<lparr>Fingerprint := ''abc'', TargetPools := Some []\<rparr>) # rest) \<and>
   ManagerForceSendFields (emptyManager\<lparr>Fingerprint := ''abc'', TargetPools := Some []\<rparr>) = [] \<and>
   (\<exists>rest. fst (resourceComputeInstanceGroupManagerUpdate sampleHelpers
                  (sampleWorld (\<lambda>i. Inl []) (\<lambda>n. None) (\<lambda>n. Inr 0))
                  (sampleData (sampleAttrs(''auto_healing_policies'' \<mapsto> VList []))
                     (\<lambda>k. k = ''auto_healing_policies'')))
            = CallPatch ''my-project'' ''us-central1-a'' ''igm-1''
                (emptyManager\<lparr>Fingerprint := ''abc'', AutoHealingPolicies := Some [],
                               ManagerForceSendFields := [''AutoHealingPolicies'']\<rparr>) # rest)"
proof -
  let ?w = "sampleWorld (\<lambda>i. Inl []) (\<lambda>n. None) (\<lambda>n. Inr 0)"
  let ?pools = "sampleData (sampleAttrs(''target_pools'' \<mapsto> VSet []))
                  (\<lambda>k. k = ''target_pools'')"
  let ?policies = "sampleData (sampleAttrs(''auto_healing_policies'' \<mapsto> VList []))
                     (\<lambda>k. k = ''auto_healing_policies'')"
  have a: "\<exists>rest. fst (resourceComputeInstanceGroupManagerUpdate sampleHelpers ?w ?pools)
            = CallPatch ''my-project'' ''us-central1-a'' ''igm-1''
                (emptyManager\<lparr>Fingerprint := ''abc'', TargetPools := Some []\<rparr>) # rest"
    by (rule Update_patch_head)
      (simp_all add: buildUpdatedManager_def patchTargetPools_def patchAutoHealingPolicies_def
        patchVersions_def patchUpdatePolicy_def d_Get_def index_def sampleData_def
        sampleAttrs_def sampleHelpers_def)
  have b: "ManagerForceSendFields (emptyManager\<lparr>Fingerprint := ''abc'', TargetPools := Some []\<rparr>)
             = []"
    by (simp add: emptyManager_def)
  have c: "\<exists>rest. fst (resourceComputeInstanceGroupManagerUpdate sampleHelpers ?w ?policies)
            = CallPatch ''my-project'' ''us-central1-a'' ''igm-1''
                (emptyManager\<lparr>Fingerprint := ''abc'', AutoHealingPolicies := Some [],
                               ManagerForceSendFields := [''AutoHealingPolicies'']\<rparr>) # rest"
    by (rule Update_patch_head)
      (simp_all add: buildUpdatedManager_def patchTargetPools_def patchAutoHealingPolicies_def
        patchVersions_def patchUpdatePolicy_def d_Get_def index_def sampleData_def
        sampleAttrs_def sampleHelpers_def emptyManager_def)
  from a b c show ?thesis by (intro conjI)
qed

text \<open>
  Claim C6. When \<open>named_port\<close> is the only changed key, the update calls set-named-ports,
  first of all calls, and issues no patch and no resize; when \<open>target_size\<close> is the only
  changed key, it calls resize and issues no patch and no set-named-ports. The update is
  one that gets to its requests: project and zone are resolved and the attributes it
  reads hold values of their schema types.
\<close>

theorem update_named_port_or_target_size_alone:
  "(getProject h d = (project, None) \<and> getZone h d = (zone, None) \<and>
    d_Get d ''fingerprint'' = VString fp \<and> d_Get d ''name'' = VString name \<and>
    d_Get d ''named_port'' = VSet nps \<and> getNamedPortsBeta nps = Inr namedPorts \<and>
    HasChange d ''named_port'' \<and>
    \<not> HasChange d ''target_pools'' \<and> \<not> HasChange d ''auto_healing_policies'' \<and>
    \<not> HasChange d ''version'' \<and> \<not> HasChange d ''update_policy'' \<and>
    \<not> HasChange d ''target_size'' \<longrightarrow>
      (\<exists>rest. fst (resourceComputeInstanceGroupManagerUpdate h w d)
                = CallSetNamedPorts project zone name namedPorts # rest) \<and>
      (\<forall>x \<in> set (fst (resourceComputeInstanceGroupManagerUpdate h w d)).
          \<not> isPatch x \<and> \<not> isResize x)) \<and>
   (getProject h d = (project, None) \<and> getZone h d = (zone, None) \<and>
    d_Get d ''fingerprint'' = VString fp \<and> d_Get d ''name'' = VString name \<and>
    d_Get d ''target_size'' = VInt targetSize \<and>
    HasChange d ''target_size'' \<and>
    \<not> HasChange d ''target_pools'' \<and> \<not> HasChange d ''auto_healing_policies'' \<and>
    \<not> HasChange d ''version'' \<and> \<not> HasChange d ''update_policy'' \<and>
    \<not> HasChange d ''named_port'' \<longrightarrow>
      (\<exists>rest. fst (resourceComputeInstanceGroupManagerUpdate h w d)
                = CallResize project zone name targetSize # rest) \<and>
      (\<forall>x \<in> set (fst (resourceComputeInstanceGroupManagerUpdate h w d)).
          \<not> isPatch x \<and> \<not> isSetNamedPorts x))"
proof (intro conjI impI ballI)
  assume a: "getProject h d = (project, None) \<and> getZone h d = (zone, None) \<and>
    d_Get d ''fingerprint'' = VString fp \<and> d_Get d ''name'' = VString name \<and>
    d_Get d ''named_port'' = VSet nps \<and> getNamedPortsBeta nps = Inr namedPorts \<and>
    HasChange d ''named_port'' \<and>
    \<not> HasChange d ''target_pools'' \<and> \<not> HasChange d ''auto_healing_policies'' \<and>
    \<not> HasChange d ''version'' \<and> \<not> HasChange d ''update_policy'' \<and>
    \<not> HasChange d ''target_size''"
  then have b: "buildUpdatedManager h d = Inr (emptyManager\<lparr>Fingerprint := fp\<rparr>, False)"
    by (simp add: buildUpdatedManager_unchanged)
  from a b Update_prefix_namedPort [OF _ _ b patchStep_unchanged] obtain r1 where
    r1: "fst (resourceComputeInstanceGroupManagerUpdate h w d)
           = fst (namedPortStep w d project zone) @ r1"
    by blast
  from a namedPortStep_head obtain r2 where
    "fst (namedPortStep w d project zone) = CallSetNamedPorts project zone name namedPorts # r2"
    by blast
  with r1 show "\<exists>rest. fst (resourceComputeInstanceGroupManagerUpdate h w d)
                = CallSetNamedPorts project zone name namedPorts # rest"
    by simp
  fix x
  assume x: "x \<in> set (fst (resourceComputeInstanceGroupManagerUpdate h w d))"
  from a x show "\<not> isPatch x" using Update_no_patch by blast
  from Update_calls [OF x] obtain project1 zone1 m change where
    "x \<in> set (fst (patchStep w d project1 zone1 m change)) \<or>
     x \<in> set (fst (namedPortStep w d project1 zone1)) \<or>
     x \<in> set (fst (resizeStep w d project1 zone1)) \<or>
     x \<in> set (fst (resourceComputeInstanceGroupManagerRead h w d))"
    by blast
  with a show "\<not> isResize x"
    using patchStep_calls [of x w d project1 zone1 m change]
      namedPortStep_calls [of x w d project1 zone1]
      resizeStep_calls [of x w d project1 zone1] Read_calls_not [of x h w d]
    by blast
next
  assume a: "getProject h d = (project, None) \<and> getZone h d = (zone, None) \<and>
    d_Get d ''fingerprint'' = VString fp \<and> d_Get d ''name'' = VString name \<and>
    d_Get d ''target_size'' = VInt targetSize \<and>
    HasChange d ''target_size'' \<and>
    \<not> HasChange d ''target_pools'' \<and> \<not> HasChange d ''auto_healing_policies'' \<and>
    \<not> HasChange d ''version'' \<and> \<not> HasChange d ''update_policy'' \<and>
    \<not> HasChange d ''named_port''"
  then have b: "buildUpdatedManager h d = Inr (emptyManager\<lparr>Fingerprint := fp\<rparr>, False)"
    by (simp add: buildUpdatedManager_unchanged)
  from a have n: "namedPortStep w d project zone = ([], None)"
    by (simp add: namedPortStep_unchanged)
  from a Update_prefix_resize [OF _ _ b patchStep_unchanged n] obtain r1 where
    r1: "fst (resourceComputeInstanceGroupManagerUpdate h w d)
           = fst (resizeStep w d project zone) @ r1"
    by blast
  from a resizeStep_head obtain r2 where
    "fst (resizeStep w d project zone) = CallResize project zone name targetSize # r2"
    by blast
  with r1 show "\<exists>rest. fst (resourceComputeInstanceGroupManagerUpdate h w d)
                = CallResize project zone name targetSize # rest"
    by simp
  fix x
  assume x: "x \<in> set (fst (resourceComputeInstanceGroupManagerUpdate h w d))"
  from a x show "\<not> isPatch x" using Update_no_patch by blast
  from Update_calls [OF x] obtain project1 zone1 m change where
    "x \<in> set (fst (patchStep w d project1 zone1 m change)) \<or>
     x \<in> set (fst (namedPortStep w d project1 zone1)) \<or>
     x \<in> set (fst (resizeStep w d project1 zone1)) \<or>
     x \<in> set (fst (resourceComputeInstanceGroupManagerRead h w d))"
    by blast
  with a show "\<not> isSetNamedPorts x"
    using patchStep_calls [of x w d project1 zone1 m change]
      namedPortStep_calls [of x w d project1 zone1]
      resizeStep_calls [of x w d project1 zone1] Read_calls_not [of x h w d]
    by blast
qed

theorem update_named_port_or_target_size_alone_witness:
  "(\<exists>rest. fst (resourceComputeInstanceGroupManagerUpdate sampleHelpers
                  (sampleWorld (\<lambda>i. Inl []) (\<lambda>n. None) (\<lambda>n. Inr 0))
                  (sampleData sampleAttrs (\<lambda>k. k = ''named_port'')))
            = CallSetNamedPorts ''my-project'' ''us-central1-a'' ''igm-1''
                [\<lparr>PortName = ''http'', Port = 80\<rparr>] # rest) \<and>
   list_all (\<lambda>x. \<not> isPatch x \<and> \<not> isResize x)
     (fst (resourceComputeInstanceGroupManagerUpdate sampleHelpers
             (sampleWorld (\<lambda>i. Inl []) (\<lambda>n. None) (\<lambda>n. Inr 0))
             (sampleData sampleAttrs (\<lambda>k. k = ''named_port'')))) \<and>
   (\<exists>rest. fst (resourceComputeInstanceGroupManagerUpdate sampleHelpers
                  (sampleWorld (\<lambda>i. Inl []) (\<lambda>n. None) (\<lambda>n. Inr 0))
                  (sampleData sampleAttrs (\<lambda>k. k = ''target_size'')))
            = CallResize ''my-project'' ''us-central1-a'' ''igm-1'' 10 # rest) \<and>
   list_all (\<lambda>x. \<not> isPatch x \<and> \<not> isSetNamedPorts x)
     (fst (resourceComputeInstanceGroupManagerUpdate sampleHelpers
             (sampleWorld (\<lambda>i. Inl []) (\<lambda>n. None) (\<lambda>n. Inr 0))
             (sampleData sampleAttrs (\<lambda>k. k = ''target_size''))))"
proof -
  let ?w = "sampleWorld (\<lambda>i. Inl []) (\<lambda>n. None) (\<lambda>n. Inr 0)"
  let ?da = "sampleData sampleAttrs (\<lambda>k. k = ''named_port'')"
  let ?db = "sampleData sampleAttrs (\<lambda>k. k = ''target_size'')"
  let ?nps = "[VMap [''name'' \<mapsto> VString ''http'', ''port'' \<mapsto> VInt 80]]"
  let ?ports = "[\<lparr>PortName = ''http'', Port = 80\<rparr>]"
  note t1 = update_named_port_or_target_size_alone
    [where h = sampleHelpers and w = ?w and d = ?da and project = "''my-project''"
       and zone = "''us-central1-a''" and name = "''igm-1''" and fp = "''abc''"
       and nps = ?nps and namedPorts = ?ports]
  note t2 = update_named_port_or_target_size_alone
    [where h = sampleHelpers and w = ?w and d = ?db and project = "''my-project''"
       and zone = "''us-central1-a''" and name = "''igm-1''" and fp = "''abc''"
       and targetSize = 10]
  have p: "getNamedPortsBeta ?nps = Inr ?ports" by (simp add: index_def)
  have h1: "getProject sampleHelpers ?da = (''my-project'', None) \<and>
    getZone sampleHelpers ?da = (''us-central1-a'', None) \<and>
    d_Get ?da ''fingerprint'' = VString ''abc'' \<and> d_Get ?da ''name'' = VString ''igm-1'' \<and>
    d_Get ?da ''named_port'' = VSet ?nps \<and> getNamedPortsBeta ?nps = Inr ?ports \<and>
    HasChange ?da ''named_port'' \<and>
    \<not> HasChange ?da ''target_pools'' \<and> \<not> HasChange ?da ''auto_healing_policies'' \<and>
    \<not> HasChange ?da ''version'' \<and> \<not> HasChange ?da ''update_policy'' \<and>
    \<not> HasChange ?da ''target_size''"
    using p by (simp add: d_Get_def index_def sampleData_def sampleAttrs_def sampleHelpers_def)
  have h2: "getProject sampleHelpers ?db = (''my-project'', None) \<and>
    getZone sampleHelpers ?db = (''us-central1-a'', None) \<and>
    d_Get ?db ''fingerprint'' = VString ''abc'' \<and> d_Get ?db ''name'' = VString ''igm-1'' \<and>
    d_Get ?db ''target_size'' = VInt 10 \<and>
    HasChange ?db ''target_size'' \<and>
    \<not> HasChange ?db ''target_pools'' \<and> \<not> HasChange ?db ''auto_healing_policies'' \<and>
    \<not> HasChange ?db ''version'' \<and> \<not> HasChange ?db ''update_policy'' \<and>
    \<not> HasChange ?db ''named_port''"
    by (simp add: d_Get_def index_def sampleData_def sampleAttrs_def sampleHelpers_def)
  note a = t1 [THEN conjunct1, THEN mp, OF h1, folded list_all_iff]
  note b = t2 [THEN conjunct2, THEN mp, OF h2, folded list_all_iff]
  from a b show ?thesis by (intro conjI) blast+
qed

section \<open>Properties of the delete\<close>

declare retryDelete.simps [simp del] drainLoop.simps [simp del]

lemma retryDelete_Inr: "retryDelete w c attempt (Inr op) = ([], Inr op)"
  by (simp add: retryDelete.simps)

lemma retryDelete_exhausted: "20 \<le> attempt \<Longrightarrow> retryDelete w c attempt r = ([], r)"
  by (simp add: retryDelete.simps split: sum.splits)

lemma retryDelete_Inl:
  "attempt < 20 \<Longrightarrow>
   retryDelete w c attempt (Inl e) =
     (Sleep 2000 # c # fst (retryDelete w c (Suc attempt) (Delete_Do w (Suc attempt))),
      snd (retryDelete w c (Suc attempt) (Delete_Do w (Suc attempt))))"
  by (subst retryDelete.simps) (simp split: prod.splits)

lemma retryDelete_success:
  "attempt + n \<le> 20 \<Longrightarrow>
   (\<forall>i. attempt \<le> i \<and> i < attempt + n \<longrightarrow> isl (Delete_Do w i)) \<Longrightarrow>
   Delete_Do w (attempt + n) = Inr op \<Longrightarrow>
   retryDelete w c attempt (Delete_Do w attempt) = (concat (replicate n [Sleep 2000, c]), Inr op)"
proof (induction n arbitrary: attempt)
  case 0
  then show ?case by (simp add: retryDelete_Inr)
next
  case (Suc n)
  from Suc.prems(2) have "isl (Delete_Do w attempt)" by simp
  then obtain e where e: "Delete_Do w attempt = Inl e" by (cases "Delete_Do w attempt") auto
  have lt: "attempt < 20" using Suc.prems(1) by simp
  have "retryDelete w c (Suc attempt) (Delete_Do w (Suc attempt)) = (concat (replicate n [Sleep 2000, c]), Inr op)"
    using Suc.prems by (intro Suc.IH) auto
  with e lt show ?case by (simp add: retryDelete_Inl)
qed

lemma retryDelete_failure:
  "attempt + n = 20 \<Longrightarrow>
   (\<forall>i. attempt \<le> i \<and> i \<le> 20 \<longrightarrow> isl (Delete_Do w i)) \<Longrightarrow>
   retryDelete w c attempt (Delete_Do w attempt) = (concat (replicate n [Sleep 2000, c]), Delete_Do w 20)"
proof (induction n arbitrary: attempt)
  case 0
  then show ?case by (simp add: retryDelete_exhausted)
next
  case (Suc n)
  from Suc.prems have "isl (Delete_Do w attempt)" by simp
  then obtain e where e: "Delete_Do w attempt = Inl e" by (cases "Delete_Do w attempt") auto
  have lt: "attempt < 20" using Suc.prems(1) by simp
  have "retryDelete w c (Suc attempt) (Delete_Do w (Suc attempt)) = (concat (replicate n [Sleep 2000, c]), Delete_Do w 20)"
    using Suc.prems by (intro Suc.IH) auto
  with e lt show ?case by (simp add: retryDelete_Inl)
qed

lemma drainLoop_None: "drainLoop w op g p currentSize n None = ([], None)"
  by (simp add: drainLoop.simps)

lemma drainLoop_drained:
  "currentSize \<le> 0 \<Longrightarrow> drainLoop w op g p currentSize n err = ([], None)"
  by (simp add: drainLoop.simps split: option.splits)

lemma drainLoop_other_error:
  "0 < currentSize \<Longrightarrow> \<not> Contains e ''timeout'' \<Longrightarrow>
   drainLoop w op g p currentSize n (Some e) = ([], Some (Errorf e))"
  by (simp add: drainLoop.simps)

lemma drainLoop_get_error:
  "0 < currentSize \<Longrightarrow> Contains e ''timeout'' \<Longrightarrow> InstanceGroups_Get_Do w n = Inl e1 \<Longrightarrow>
   drainLoop w op g p currentSize n (Some e) =
     ([g], Some (Errorf (''Error getting instance group size: '' @ e1)))"
  by (simp add: drainLoop.simps)

lemma drainLoop_not_shrinking:
  "0 < currentSize \<Longrightarrow> Contains e ''timeout'' \<Longrightarrow>
   InstanceGroups_Get_Do w n = Inr instanceGroupSize \<Longrightarrow> currentSize \<le> instanceGroupSize \<Longrightarrow>
   drainLoop w op g p currentSize n (Some e) = ([g], Some (Errorf notShrinking))"
  by (simp add: drainLoop.simps)

lemma drainLoop_shrinking:
  "0 < currentSize \<Longrightarrow> Contains e ''timeout'' \<Longrightarrow>
   InstanceGroups_Get_Do w n = Inr instanceGroupSize \<Longrightarrow> instanceGroupSize < currentSize \<Longrightarrow>
   drainLoop w op g p currentSize n (Some e) =
     (g # p # fst (drainLoop w op g p instanceGroupSize (Suc n) (Some e)),
      snd (drainLoop w op g p instanceGroupSize (Suc n) (Some e)))"
  by (subst drainLoop.simps) (simp split: prod.splits)

lemma sample_resolve: "resolveId sampleHelpers d sampleId = Inr sampleId"
  by (simp add: resolveId_def sampleId_def)

lemma drainLoop_calls:
  "x \<in> set (fst (drainLoop w op g p currentSize n err)) \<Longrightarrow> x = g \<or> x = p"
proof (induction w op g p currentSize n err rule: drainLoop.induct)
  case (1 w op g p currentSize n err)
  show ?case
  proof (cases err)
    case None
    with "1.prems" show ?thesis by (simp add: drainLoop_None)
  next
    case (Some e)
    show ?thesis
    proof (cases "0 < currentSize \<and> Contains e ''timeout''")
      case False
      with "1.prems" Some show ?thesis
        by (simp add: drainLoop.simps split: if_splits)
    next
      case True
      show ?thesis
      proof (cases "InstanceGroups_Get_Do w n")
        case (Inl e1)
        with "1.prems" Some True show ?thesis by (simp add: drainLoop_get_error)
      next
        case (Inr size1)
        show ?thesis
        proof (cases "size1 < currentSize")
          case False
          with "1.prems" Some True Inr show ?thesis by (simp add: drainLoop_not_shrinking)
        next
          case less: True
          from "1.prems" Some True Inr less
          have "x = g \<or> x = p \<or>
                x \<in> set (fst (drainLoop w op g p size1 (Suc n) (Some e)))"
            by (simp add: drainLoop_shrinking)
          moreover have "x \<in> set (fst (drainLoop w op g p size1 (Suc n) (Some e))) \<Longrightarrow>
                         x = g \<or> x = p"
            using "1.IH" [of e size1] Some True Inr less by simp
          ultimately show ?thesis by blast
        qed
      qed
    qed
  qed
qed

lemma Delete_failed:
  assumes "parseInstanceGroupManagerId (ProjectRegex h) (d_Id d) = Inr parsed"
    and "resolveId h d parsed = Inr zonalID"
    and "retryDelete w (CallDelete (Project zonalID) (Zone zonalID) (Name zonalID)) 0
           (Delete_Do w 0) = (t, Inl e)"
  shows "resourceComputeInstanceGroupManagerDelete h w d =
           (CallDelete (Project zonalID) (Zone zonalID) (Name zonalID) # t, d,
            Some (Errorf (''Error deleting instance group manager: '' @ e)))"
  using assms by (simp add: resourceComputeInstanceGroupManagerDelete_def)

lemma Delete_requested:
  assumes "parseInstanceGroupManagerId (ProjectRegex h) (d_Id d) = Inr parsed"
    and "resolveId h d parsed = Inr zonalID"
    and "retryDelete w (CallDelete (Project zonalID) (Zone zonalID) (Name zonalID)) 0
           (Delete_Do w 0) = (t, Inr op)"
    and "d_Get d ''target_size'' = VInt currentSize"
  shows "resourceComputeInstanceGroupManagerDelete h w d =
           (case drainLoop w op
                   (CallInstanceGroupsGet (Project zonalID) (Zone zonalID) (Name zonalID))
                   (CallOperationWait op (Project zonalID) ''Deleting InstanceGroupManager'')
                   currentSize 0 (computeSharedOperationWait w op 0) of
              (t1, Some e) \<Rightarrow>
                (CallDelete (Project zonalID) (Zone zonalID) (Name zonalID) # t @
                 CallOperationWait op (Project zonalID) ''Deleting InstanceGroupManager'' # t1,
                 d, Some e)
            | (t1, None) \<Rightarrow>
                (CallDelete (Project zonalID) (Zone zonalID) (Name zonalID) # t @
                 CallOperationWait op (Project zonalID) ''Deleting InstanceGroupManager'' # t1,
                 d_SetId d [], None))"
  using assms by (simp add: resourceComputeInstanceGroupManagerDelete_def Let_def)

text \<open>
  Claim C7. For a delete that gets to its request: when the request and each of its 20
  repetitions fail, whatever the errors are, the delete sleeps 2000 milliseconds before
  each repetition and returns an error that wraps the last failure; when an attempt
  succeeds after \<open>k\<close> failed ones, the delete has slept and repeated \<open>k\<close> times and goes on to
  wait for the operation of that attempt, with no further request or sleep.
\<close>

theorem delete_retries_request:
  assumes "parseInstanceGroupManagerId (ProjectRegex h) (d_Id d) = Inr parsed"
    and "resolveId h d parsed = Inr zonalID"
    and "c = CallDelete (Project zonalID) (Zone zonalID) (Name zonalID)"
  shows "((\<forall>i. i \<le> 20 \<longrightarrow> Delete_Do w i = Inl (errs i)) \<longrightarrow>
            resourceComputeInstanceGroupManagerDelete h w d =
              (c # concat (replicate 20 [Sleep 2000, c]), d,
               Some (Errorf (''Error deleting instance group manager: '' @ errs 20)))) \<and>
         (k \<le> 20 \<and> (\<forall>i. i < k \<longrightarrow> Delete_Do w i = Inl (errs i)) \<and> Delete_Do w k = Inr op \<and>
          d_Get d ''target_size'' = VInt currentSize \<longrightarrow>
            (\<exists>t. fst (resourceComputeInstanceGroupManagerDelete h w d) =
                   c # concat (replicate k [Sleep 2000, c]) @
                   CallOperationWait op (Project zonalID) ''Deleting InstanceGroupManager'' # t \<and>
                 (\<forall>x \<in> set t. x \<noteq> c \<and> x \<noteq> Sleep 2000)))"
proof (intro conjI impI)
  assume a: "\<forall>i. i \<le> 20 \<longrightarrow> Delete_Do w i = Inl (errs i)"
  have "retryDelete w c 0 (Delete_Do w 0)
          = (concat (replicate 20 [Sleep 2000, c]), Delete_Do w 20)"
    using a by (intro retryDelete_failure) auto
  with a have "retryDelete w c 0 (Delete_Do w 0)
                  = (concat (replicate 20 [Sleep 2000, c]), Inl (errs 20))"
    by simp
  from Delete_failed [OF assms(1,2) this [unfolded assms(3)]]
  show "resourceComputeInstanceGroupManagerDelete h w d =
              (c # concat (replicate 20 [Sleep 2000, c]), d,
               Some (Errorf (''Error deleting instance group manager: '' @ errs 20)))"
    by (simp add: assms(3))
next
  assume a: "k \<le> 20 \<and> (\<forall>i. i < k \<longrightarrow> Delete_Do w i = Inl (errs i)) \<and> Delete_Do w k = Inr op \<and>
          d_Get d ''target_size'' = VInt currentSize"
  have t: "retryDelete w c 0 (Delete_Do w 0) = (concat (replicate k [Sleep 2000, c]), Inr op)"
    using a by (intro retryDelete_success) auto
  let ?g = "CallInstanceGroupsGet (Project zonalID) (Zone zonalID) (Name zonalID)"
  let ?p = "CallOperationWait op (Project zonalID) ''Deleting InstanceGroupManager''"
  let ?l = "drainLoop w op ?g ?p currentSize 0 (computeSharedOperationWait w op 0)"
  from a have ts: "d_Get d ''target_size'' = VInt currentSize" by simp
  have f: "fst (resourceComputeInstanceGroupManagerDelete h w d)
             = c # concat (replicate k [Sleep 2000, c]) @ ?p # fst ?l"
    using Delete_requested [OF assms(1,2) t [unfolded assms(3)] ts]
    by (simp add: assms(3) split: prod.splits option.splits)
  have "\<forall>x \<in> set (fst ?l). x \<noteq> c \<and> x \<noteq> Sleep 2000"
    using drainLoop_calls [of _ w op ?g ?p currentSize 0] by (auto simp: assms(3))
  with f show "\<exists>t. fst (resourceComputeInstanceGroupManagerDelete h w d) =
                   c # concat (replicate k [Sleep 2000, c]) @ ?p # t \<and>
                 (\<forall>x \<in> set t. x \<noteq> c \<and> x \<noteq> Sleep 2000)"
    by blast
qed

theorem delete_retries_request_witness:
  "resourceComputeInstanceGroupManagerDelete sampleHelpers
     (sampleWorld (\<lambda>i. Inl ''unavailable'') (\<lambda>n. None) (\<lambda>n. Inr 0))
     (sampleData sampleAttrs (\<lambda>k. False)) =
     (CallDelete (Project sampleId) (Zone sampleId) (Name sampleId) #
      concat (replicate 20
        [Sleep 2000, CallDelete (Project sampleId) (Zone sampleId) (Name sampleId)]),
      sampleData sampleAttrs (\<lambda>k. False),
      Some (Errorf (''Error deleting instance group manager: '' @ ''unavailable''))) \<and>
   (\<exists>t. fst (resourceComputeInstanceGroupManagerDelete sampleHelpers
               (sampleWorld (\<lambda>i. if i < 2 then Inl ''unavailable''
                                  else Inr (Operation ''operation-delete''))
                  (\<lambda>n. None) (\<lambda>n. Inr 0))
               (sampleData sampleAttrs (\<lambda>k. False))) =
          CallDelete (Project sampleId) (Zone sampleId) (Name sampleId) #
          concat (replicate 2
            [Sleep 2000, CallDelete (Project sampleId) (Zone sampleId) (Name sampleId)]) @
          CallOperationWait (Operation ''operation-delete'') (Project sampleId)
            ''Deleting InstanceGroupManager'' # t \<and>
        (\<forall>x \<in> set t. x \<noteq> CallDelete (Project sampleId) (Zone sampleId) (Name sampleId) \<and>
                      x \<noteq> Sleep 2000))"
proof -
  let ?d = "sampleData sampleAttrs (\<lambda>k. False)"
  let ?wa = "sampleWorld (\<lambda>i. Inl ''unavailable'') (\<lambda>n. None) (\<lambda>n. Inr 0)"
  let ?wb = "sampleWorld (\<lambda>i. if i < 2 then Inl ''unavailable''
                               else Inr (Operation ''operation-delete''))
               (\<lambda>n. None) (\<lambda>n. Inr 0)"
  note ta = delete_retries_request [OF sample_parse sample_resolve refl,
      where w = ?wa and errs = "\<lambda>i. ''unavailable''"]
  note tb = delete_retries_request [OF sample_parse sample_resolve refl,
      where w = ?wb and errs = "\<lambda>i. ''unavailable''" and k = 2
        and op = "Operation ''operation-delete''" and currentSize = 10]
  have ha: "\<forall>i. i \<le> 20 \<longrightarrow> Delete_Do ?wa i = Inl ''unavailable''"
    by (simp add: sampleWorld_def)
  have hb: "(2::nat) \<le> 20 \<and> (\<forall>i. i < 2 \<longrightarrow> Delete_Do ?wb i = Inl ''unavailable'') \<and>
            Delete_Do ?wb 2 = Inr (Operation ''operation-delete'') \<and>
            d_Get ?d ''target_size'' = VInt 10"
    by (simp add: sampleWorld_def d_Get_def index_def sampleData_def sampleAttrs_def)
  note a = ta [THEN conjunct1, THEN mp, OF ha]
  note b = tb [THEN conjunct2, THEN mp, OF hb]
  from a b show ?thesis by (intro conjI)
qed

text \<open>
  What the waits inside the loop return has no part in what the loop does: two remote
  sides that read the same sizes give the same loop.
\<close>

lemma drainLoop_ignores_polls:
  "InstanceGroups_Get_Do w' = InstanceGroups_Get_Do w \<Longrightarrow>
   drainLoop w' op g p currentSize n err = drainLoop w op g p currentSize n err"
proof (induction w op g p currentSize n err rule: drainLoop.induct)
  case (1 w op g p currentSize n err)
  show ?case
  proof (cases err)
    case None
    then show ?thesis by (simp add: drainLoop_None)
  next
    case (Some e)
    show ?thesis
    proof (cases "0 < currentSize \<and> Contains e ''timeout''")
      case False
      with Some show ?thesis by (simp add: drainLoop.simps)
    next
      case True
      show ?thesis
      proof (cases "InstanceGroups_Get_Do w n")
        case (Inl e1)
        with True Some "1.prems" show ?thesis by (simp add: drainLoop_get_error)
      next
        case (Inr instanceGroupSize)
        show ?thesis
        proof (cases "instanceGroupSize < currentSize")
          case False
          with True Some Inr "1.prems" show ?thesis by (simp add: drainLoop_not_shrinking)
        next
          case less: True
          have "drainLoop w' op g p instanceGroupSize (Suc n) (Some e)
                  = drainLoop w op g p instanceGroupSize (Suc n) (Some e)"
            using "1.IH" [of e instanceGroupSize] True Some Inr less "1.prems" by simp
          with True Some Inr less "1.prems" show ?thesis by (simp add: drainLoop_shrinking)
        qed
      qed
    qed
  qed
qed

text \<open>
  So a delete whose first poll timed out goes on reading sizes after a repeated poll
  that succeeded: here the group has 6 of its 10 instances left at the first read, the
  repeated poll returns no error, and the next read fails.
\<close>

lemma Delete_after_completed_poll:
  "resourceComputeInstanceGroupManagerDelete sampleHelpers
     (sampleWorld (\<lambda>i. Inr (Operation ''operation-delete''))
        (\<lambda>n. if n = 0 then Some ''operation timeout'' else None)
        (\<lambda>n. if n = 0 then Inr 6 else Inl ''not found''))
     (sampleData sampleAttrs (\<lambda>k. False)) =
     ([CallDelete ''my-project'' ''us-central1-a'' ''igm-1'',
       CallOperationWait (Operation ''operation-delete'') ''my-project''
         ''Deleting InstanceGroupManager'',
       CallInstanceGroupsGet ''my-project'' ''us-central1-a'' ''igm-1'',
       CallOperationWait (Operation ''operation-delete'') ''my-project''
         ''Deleting InstanceGroupManager'',
       CallInstanceGroupsGet ''my-project'' ''us-central1-a'' ''igm-1''],
      sampleData sampleAttrs (\<lambda>k. False),
      Some (Errorf ''Error getting instance group size: not found''))"
proof -
  let ?d = "sampleData sampleAttrs (\<lambda>k. False)"
  let ?w = "sampleWorld (\<lambda>i. Inr (Operation ''operation-delete''))
              (\<lambda>n. if n = 0 then Some ''operation timeout'' else None)
              (\<lambda>n. if n = 0 then Inr 6 else Inl ''not found'')"
  let ?op = "Operation ''operation-delete''"
  let ?g = "CallInstanceGroupsGet (Project sampleId) (Zone sampleId) (Name sampleId)"
  let ?p = "CallOperationWait ?op (Project sampleId) ''Deleting InstanceGroupManager''"
  have ct: "Contains ''operation timeout'' ''timeout''" by (simp add: HasPrefix_def)
  have r: "retryDelete ?w (CallDelete (Project sampleId) (Zone sampleId) (Name sampleId)) 0
             (Delete_Do ?w 0) = ([], Inr ?op)"
    by (simp add: sampleWorld_def retryDelete_Inr)
  have s: "d_Get ?d ''target_size'' = VInt 10"
    by (simp add: d_Get_def index_def sampleData_def sampleAttrs_def)
  have l1: "drainLoop ?w ?op ?g ?p 6 (Suc 0) (Some ''operation timeout'')
              = ([?g], Some (Errorf (''Error getting instance group size: '' @ ''not found'')))"
    using ct by (intro drainLoop_get_error) (simp_all add: sampleWorld_def)
  have l0: "drainLoop ?w ?op ?g ?p 10 0 (Some ''operation timeout'')
              = ([?g, ?p, ?g], Some (Errorf ''Error getting instance group size: not found''))"
    using ct l1 drainLoop_shrinking [of 10 "''operation timeout''" ?w 0 6 ?op ?g ?p]
    by (simp add: sampleWorld_def)
  have w0: "computeSharedOperationWait ?w ?op 0 = Some ''operation timeout''"
    by (simp add: sampleWorld_def)
  show ?thesis
    using Delete_requested [OF sample_parse sample_resolve r s] l0 w0
    by (simp add: sampleId_def)
qed

text \<open>
  And a repeated poll that succeeds while the size read stays where it was ends the
  delete with the not-shrinking error.
\<close>

lemma Delete_not_shrinking_after_completed_poll:
  "resourceComputeInstanceGroupManagerDelete sampleHelpers
     (sampleWorld (\<lambda>i. Inr (Operation ''operation-delete''))
        (\<lambda>n. if n = 0 then Some ''operation timeout'' else None)
        (\<lambda>n. Inr 6))
     (sampleData sampleAttrs (\<lambda>k. False)) =
     ([CallDelete ''my-project'' ''us-central1-a'' ''igm-1'',
       CallOperationWait (Operation ''operation-delete'') ''my-project''
         ''Deleting InstanceGroupManager'',
       CallInstanceGroupsGet ''my-project'' ''us-central1-a'' ''igm-1'',
       CallOperationWait (Operation ''operation-delete'') ''my-project''
         ''Deleting InstanceGroupManager'',
       CallInstanceGroupsGet ''my-project'' ''us-central1-a'' ''igm-1''],
      sampleData sampleAttrs (\<lambda>k. False),
      Some (Errorf notShrinking))"
proof -
  let ?d = "sampleData sampleAttrs (\<lambda>k. False)"
  let ?w = "sampleWorld (\<lambda>i. Inr (Operation ''operation-delete''))
              (\<lambda>n. if n = 0 then Some ''operation timeout'' else None)
              (\<lambda>n. Inr 6)"
  let ?op = "Operation ''operation-delete''"
  let ?g = "CallInstanceGroupsGet (Project sampleId) (Zone sampleId) (Name sampleId)"
  let ?p = "CallOperationWait ?op (Project sampleId) ''Deleting InstanceGroupManager''"
  have ct: "Contains ''operation timeout'' ''timeout''" by (simp add: HasPrefix_def)
  have r: "retryDelete ?w (CallDelete (Project sampleId) (Zone sampleId) (Name sampleId)) 0
             (Delete_Do ?w 0) = ([], Inr ?op)"
    by (simp add: sampleWorld_def retryDelete_Inr)
  have s: "d_Get ?d ''target_size'' = VInt 10"
    by (simp add: d_Get_def index_def sampleData_def sampleAttrs_def)
  have la: "drainLoop ?w ?op ?g ?p 6 (Suc 0) (Some ''operation timeout'')
              = ([?g], Some (Errorf notShrinking))"
    using ct by (intro drainLoop_not_shrinking [of _ _ _ _ 6]) (simp_all add: sampleWorld_def)
  have lb: "drainLoop ?w ?op ?g ?p 10 0 (Some ''operation timeout'')
              = ([?g, ?p, ?g], Some (Errorf notShrinking))"
    using ct la drainLoop_shrinking [of 10 "''operation timeout''" ?w 0 6 ?op ?g ?p]
    by (simp add: sampleWorld_def)
  have wa: "computeSharedOperationWait ?w ?op 0 = Some ''operation timeout''"
    by (simp add: sampleWorld_def)
  show ?thesis
    using Delete_requested [OF sample_parse sample_resolve r s] lb wa
    by (simp add: sampleId_def)
qed

text \<open>
  The loop is guarded by \<open>currentSize > 0\<close> and nothing follows it: for a group whose
  target size is zero the error of the poll is dropped, whatever it is, and the delete
  clears the identifier.
\<close>

lemma Delete_drained_poll_error:
  assumes "parseInstanceGroupManagerId (ProjectRegex h) (d_Id d) = Inr parsed"
    and "resolveId h d parsed = Inr zonalID"
    and "Delete_Do w 0 = Inr op"
    and "d_Get d ''target_size'' = VInt currentSize"
    and "currentSize \<le> 0"
  shows "resourceComputeInstanceGroupManagerDelete h w d =
           ([CallDelete (Project zonalID) (Zone zonalID) (Name zonalID),
             CallOperationWait op (Project zonalID) ''Deleting InstanceGroupManager''],
            d_SetId d [], None)"
proof -
  have r: "retryDelete w (CallDelete (Project zonalID) (Zone zonalID) (Name zonalID)) 0
             (Delete_Do w 0) = ([], Inr op)"
    by (simp add: assms(3) retryDelete_Inr)
  show ?thesis
    using Delete_requested [OF assms(1,2) r assms(4)] assms(5)
    by (simp add: drainLoop_drained)
qed

text \<open>
  A group of target size 10 that is read as 6, 3 and 0 after a first poll that timed
  out is deleted: the identifier is cleared and no error is returned.
\<close>

lemma Delete_shrinking_group:
  assumes "parseInstanceGroupManagerId (ProjectRegex h) (d_Id d) = Inr parsed"
    and "resolveId h d parsed = Inr zonalID"
    and "Delete_Do w 0 = Inr op"
    and "d_Get d ''target_size'' = VInt 10"
    and "computeSharedOperationWait w op 0 = Some e" and "Contains e ''timeout''"
    and "InstanceGroups_Get_Do w 0 = Inr 6" and "InstanceGroups_Get_Do w 1 = Inr 3"
    and "InstanceGroups_Get_Do w 2 = Inr 0"
    and "c = CallDelete (Project zonalID) (Zone zonalID) (Name zonalID)"
    and "g = CallInstanceGroupsGet (Project zonalID) (Zone zonalID) (Name zonalID)"
    and "p = CallOperationWait op (Project zonalID) ''Deleting InstanceGroupManager''"
  shows "resourceComputeInstanceGroupManagerDelete h w d =
           ([c, p, g, p, g, p, g, p], d_SetId d [], None)"
proof -
  have r: "retryDelete w (CallDelete (Project zonalID) (Zone zonalID) (Name zonalID)) 0
             (Delete_Do w 0) = ([], Inr op)"
    by (simp add: assms(3) retryDelete_Inr)
  have lc: "drainLoop w op g p 0 3 (Some e) = ([], None)"
    by (simp add: drainLoop_drained)
  have lb: "drainLoop w op g p 3 2 (Some e) = ([g, p], None)"
    using assms(6,9) lc drainLoop_shrinking [of 3 e w 2 0 op g p]
    by (simp add: eval_nat_numeral)
  have la: "drainLoop w op g p 6 1 (Some e) = ([g, p, g, p], None)"
    using assms(6,8) lb drainLoop_shrinking [of 6 e w 1 3 op g p]
    by (simp add: eval_nat_numeral)
  have l: "drainLoop w op g p 10 0 (Some e) = ([g, p, g, p, g, p], None)"
    using assms(6,7) la drainLoop_shrinking [of 10 e w 0 6 op g p]
    by simp
  show ?thesis
    using Delete_requested [OF assms(1,2) r assms(4)] l assms(5)
    unfolding assms(10,11,12) by simp
qed

text \<open>
  Claim C8. After a delete request that succeeded, a poll that fails with an error
  holding the text \<open>timeout\<close> while the size is positive makes the delete read the size
  again: a size below the baseline is progress and polling resumes with that size as the
  baseline, a size that did not decrease ends the delete with the not-shrinking error,
  and a poll error without the text \<open>timeout\<close> is returned at once. The code does not
  return such an error of a repeated poll: the loop keeps testing the error of the first
  poll. Here the group has target size 10, the first poll times out and the size is
  read as 6, and the repeated polls fail with \<open>quota exceeded\<close>; the delete goes on to
  read the sizes 3 and 0, clears the identifier and returns no error.
\<close>

theorem delete_repeated_poll_error_dropped:
  "computeSharedOperationWait
     (sampleWorld (\<lambda>i. Inr (Operation ''operation-delete''))
        (\<lambda>n. if n = 0 then Some ''operation timeout'' else Some ''quota exceeded'')
        (\<lambda>n. if n = 0 then Inr 6 else if n = 1 then Inr 3 else Inr 0))
     (Operation ''operation-delete'') (Suc 0) = Some ''quota exceeded'' \<and>
   \<not> Contains ''quota exceeded'' ''timeout'' \<and>
   resourceComputeInstanceGroupManagerDelete sampleHelpers
     (sampleWorld (\<lambda>i. Inr (Operation ''operation-delete''))
        (\<lambda>n. if n = 0 then Some ''operation timeout'' else Some ''quota exceeded'')
        (\<lambda>n. if n = 0 then Inr 6 else if n = 1 then Inr 3 else Inr 0))
     (sampleData sampleAttrs (\<lambda>k. False)) =
     ([CallDelete ''my-project'' ''us-central1-a'' ''igm-1'',
       CallOperationWait (Operation ''operation-delete'') ''my-project''
         ''Deleting InstanceGroupManager'',
       CallInstanceGroupsGet ''my-project'' ''us-central1-a'' ''igm-1'',
       CallOperationWait (Operation ''operation-delete'') ''my-project''
         ''Deleting InstanceGroupManager'',
       CallInstanceGroupsGet ''my-project'' ''us-central1-a'' ''igm-1'',
       CallOperationWait (Operation ''operation-delete'') ''my-project''
         ''Deleting InstanceGroupManager'',
       CallInstanceGroupsGet ''my-project'' ''us-central1-a'' ''igm-1'',
       CallOperationWait (Operation ''operation-delete'') ''my-project''
         ''Deleting InstanceGroupManager''],
      d_SetId (sampleData sampleAttrs (\<lambda>k. False)) [], None)"
proof -
  let ?d = "sampleData sampleAttrs (\<lambda>k. False)"
  let ?w = "sampleWorld (\<lambda>i. Inr (Operation ''operation-delete''))
              (\<lambda>n. if n = 0 then Some ''operation timeout'' else Some ''quota exceeded'')
              (\<lambda>n. if n = 0 then Inr 6 else if n = 1 then Inr 3 else Inr 0)"
  let ?op = "Operation ''operation-delete''"
  have ct: "Contains ''operation timeout'' ''timeout''" by (simp add: HasPrefix_def)
  have cq: "\<not> Contains ''quota exceeded'' ''timeout''" by (simp add: HasPrefix_def)
  have pb: "computeSharedOperationWait ?w ?op (Suc 0) = Some ''quota exceeded''"
    by (simp add: sampleWorld_def)
  have hd: "Delete_Do ?w 0 = Inr ?op" by (simp add: sampleWorld_def)
  have hs: "d_Get ?d ''target_size'' = VInt 10"
    by (simp add: d_Get_def index_def sampleData_def sampleAttrs_def)
  have pa: "computeSharedOperationWait ?w ?op 0 = Some ''operation timeout''"
    by (simp add: sampleWorld_def)
  have sa: "InstanceGroups_Get_Do ?w 0 = Inr 6" and sb: "InstanceGroups_Get_Do ?w 1 = Inr 3"
    and sc: "InstanceGroups_Get_Do ?w 2 = Inr 0"
    by (simp_all add: sampleWorld_def)
  have "resourceComputeInstanceGroupManagerDelete sampleHelpers ?w ?d =
     ([CallDelete (Project sampleId) (Zone sampleId) (Name sampleId),
       CallOperationWait ?op (Project sampleId) ''Deleting InstanceGroupManager'',
       CallInstanceGroupsGet (Project sampleId) (Zone sampleId) (Name sampleId),
       CallOperationWait ?op (Project sampleId) ''Deleting InstanceGroupManager'',
       CallInstanceGroupsGet (Project sampleId) (Zone sampleId) (Name sampleId),
       CallOperationWait ?op (Project sampleId) ''Deleting InstanceGroupManager'',
       CallInstanceGroupsGet (Project sampleId) (Zone sampleId) (Name sampleId),
       CallOperationWait ?op (Project sampleId) ''Deleting InstanceGroupManager''],
      d_SetId ?d [], None)"
    by (rule Delete_shrinking_group
        [OF sample_parse sample_resolve hd hs pa ct sa sb sc refl refl refl])
  then have "resourceComputeInstanceGroupManagerDelete sampleHelpers ?w ?d =
     ([CallDelete ''my-project'' ''us-central1-a'' ''igm-1'',
       CallOperationWait ?op ''my-project'' ''Deleting InstanceGroupManager'',
       CallInstanceGroupsGet ''my-project'' ''us-central1-a'' ''igm-1'',
       CallOperationWait ?op ''my-project'' ''Deleting InstanceGroupManager'',
       CallInstanceGroupsGet ''my-project'' ''us-central1-a'' ''igm-1'',
       CallOperationWait ?op ''my-project'' ''Deleting InstanceGroupManager'',
       CallInstanceGroupsGet ''my-project'' ''us-central1-a'' ''igm-1'',
       CallOperationWait ?op ''my-project'' ''Deleting InstanceGroupManager''],
      d_SetId ?d [], None)"
    by (simp add: sampleId_def)
  with pb cq show ?thesis by (intro conjI)
qed

end
